theory Spec2Isabelle
  imports Complex_Main "HOL-Library.Word"
begin

section \<open>Values shared by the relay and the chat client\<close>

text \<open>
  JavaScript values that cross the wire. \<open>JObj\<close> lists the own properties of a parsed
  object (keys distinct, looked up with \<open>map_of\<close>); a value that may be \<open>undefined\<close> is a
  \<open>json option\<close> with \<open>None\<close> for \<open>undefined\<close>. Strings are lists of 8-bit characters.
\<close>

datatype json =
    JNull
  | JBool bool
  | JNum real
  | JStr string
  | JArr "json list"
  | JObj "(string \<times> json) list"

text \<open>ToBoolean, as used by \<open>!x\<close>, \<open>x || y\<close> and \<open>x && y\<close>.\<close>

fun toBoolean :: "json \<Rightarrow> bool" where
  "toBoolean JNull = False"
| "toBoolean (JBool b) = b"
| "toBoolean (JNum n) = (n \<noteq> 0)"
| "toBoolean (JStr s) = (s \<noteq> [])"
| "toBoolean (JArr _) = True"
| "toBoolean (JObj _) = True"

text \<open>Property read \<open>v.k\<close> on a value that is not \<open>undefined\<close> or \<open>null\<close>.\<close>

fun get_prop :: "json \<Rightarrow> string \<Rightarrow> json option" where
  "get_prop (JObj kvs) k = map_of kvs k"
| "get_prop _ k = None"

section \<open>Relay service (server.js)\<close>

subsection \<open>Requests, replies and the upstream call\<close>

text \<open>
  The request as the routes see it, after \<open>express.json()\<close> and \<open>upload.single('image')\<close>
  have filled \<open>req.body\<close> and \<open>req.file\<close>. \<open>req_path\<close> is the path without the query
  string. The \<open>Origin\<close> header is part of the request although no line of the server
  reads it.
\<close>

record upload_file =
  originalname :: string
  mimetype :: "string option"
  buffer :: "8 word list"

record request =
  req_method :: string
  req_path :: string
  req_origin :: "string option"
  req_body :: "json option"
  req_file :: "upload_file option"

text \<open>
  The body of a reply: none, a text, a JSON value, or the HTML page that Express's default
  handler builds around a message (for a request no route matches, and for an error
  passed on by a middleware).
\<close>

datatype payload = NoBody | TextBody string | JsonBody json | ErrorPage string

record reply =
  rstatus :: nat
  rheaders :: "(string \<times> string) list"
  rbody :: payload

record http_request =
  out_url :: string
  out_method :: string
  out_headers :: "(string \<times> string) list"
  out_body :: json

text \<open>
  What the two body parsers do with a request before a route sees it. \<open>express.json()\<close>,
  registered first (line 12), refuses a JSON body it cannot take (malformed: 400, too
  large: 413, unsupported charset or encoding: 415) by passing an error with that status
  on; \<open>upload.single('image')\<close>, part of the Generate route, refuses a multipart body it
  cannot take (an unexpected file field, a broken form) by passing an error without a
  status on. Both are library code: which of the three happens to a request is an input
  of the model, together with the message of the error.
\<close>

datatype intake = JsonRefused nat string | UploadRefused string | Accepted

text \<open>
  What \<open>await fetch(...)\<close> followed by \<open>await response.json()\<close> can give: the promise
  rejects (network failure), or a response arrives with a status and a body that either
  parses as JSON or makes \<open>response.json()\<close> throw. Both failures carry the exception's
  message.
\<close>

datatype upstream_body = Unparsable string | Parsed json

datatype fetch_result = Rejected string | Response nat upstream_body

type_synonym fetcher = "http_request \<Rightarrow> fetch_result"

definition response_ok :: "nat \<Rightarrow> bool" where
  "response_ok st = (200 \<le> st \<and> st \<le> 299)"

subsection \<open>The Express response object\<close>

definition new_reply :: reply where
  "new_reply = \<lparr>rstatus = 200, rheaders = [], rbody = NoBody\<rparr>"

definition res_header :: "reply \<Rightarrow> string \<Rightarrow> string \<Rightarrow> reply" where
  "res_header res k v = res\<lparr>rheaders := rheaders res @ [(k, v)]\<rparr>"

definition res_status :: "reply \<Rightarrow> nat \<Rightarrow> reply" where
  "res_status res st = res\<lparr>rstatus := st\<rparr>"

definition res_json :: "reply \<Rightarrow> json \<Rightarrow> reply" where
  "res_json res v = res\<lparr>rbody := JsonBody v\<rparr>"

text \<open>
  \<open>res.sendStatus(200)\<close>: Express sets the status and sends the status message as a text
  body, so the body of the reply is the string \<open>OK\<close>.
\<close>

definition res_sendStatus_200 :: "reply \<Rightarrow> reply" where
  "res_sendStatus_200 res = res\<lparr>rstatus := 200, rbody := TextBody ''OK''\<rparr>"

subsection \<open>Base64, as \<open>file.buffer.toString('base64')\<close>\<close>

definition b64_alphabet :: string where
  "b64_alphabet = ''ABCDEFGHIJKLMNOPQRSTUVWXYZabcdefghijklmnopqrstuvwxyz0123456789+/''"

definition b64_char :: "nat \<Rightarrow> char" where
  "b64_char n = b64_alphabet ! (n mod 64)"

fun base64 :: "8 word list \<Rightarrow> string" where
  "base64 [] = []"
| "base64 [a] =
     [b64_char (unat a div 4), b64_char ((unat a mod 4) * 16), CHR ''='', CHR ''='']"
| "base64 [a, b] =
     [b64_char (unat a div 4), b64_char ((unat a mod 4) * 16 + unat b div 16),
      b64_char ((unat b mod 16) * 4), CHR ''='']"
| "base64 (a # b # c # rest) =
     [b64_char (unat a div 4), b64_char ((unat a mod 4) * 16 + unat b div 16),
      b64_char ((unat b mod 16) * 4 + unat c div 64), b64_char (unat c mod 64)]
     @ base64 rest"

text \<open>
  The reading of base64 text, to say what the encoding above keeps: the index of a
  character in the alphabet, and four characters back to three bytes, with \<open>=\<close> as
  padding in the last group only.
\<close>

definition b64_index :: "char \<Rightarrow> nat option" where
  "b64_index c = map_of (zip b64_alphabet [0..<64]) c"

fun base64_decode :: "string \<Rightarrow> 8 word list option" where
  "base64_decode [] = Some []"
| "base64_decode (a # b # c # d # rest) =
     (case (b64_index a, b64_index b) of
        (Some x, Some y) \<Rightarrow>
          if c = CHR ''='' then
            (if d = CHR ''='' \<and> rest = [] then Some [of_nat (x * 4 + y div 16)] else None)
          else
            (case b64_index c of
               None \<Rightarrow> None
             | Some z \<Rightarrow>
                 if d = CHR ''='' then
                   (if rest = []
                    then Some [of_nat (x * 4 + y div 16), of_nat ((y mod 16) * 16 + z div 4)]
                    else None)
                 else
                   (case b64_index d of
                      None \<Rightarrow> None
                    | Some w \<Rightarrow>
                        (case base64_decode rest of
                           None \<Rightarrow> None
                         | Some bytes \<Rightarrow>
                             Some (of_nat (x * 4 + y div 16)
                                   # of_nat ((y mod 16) * 16 + z div 4)
                                   # of_nat ((z mod 4) * 64 + w) # bytes))))
      | _ \<Rightarrow> None)"
| "base64_decode _ = None"

subsection \<open>The Generate route, \<open>POST /api/gemini\<close>\<close>

definition default_image_prompt :: string where
  "default_image_prompt = ''What is in this image? Describe it in detail.''"

definition api_url :: "string \<Rightarrow> string" where
  "api_url key =
     ''https://generativelanguage.googleapis.com/v1/models/gemini-2.5-flash:generateContent?key=''
     @ key"

text \<open>\<open>req.body && req.body.prompt\<close>: a falsy body is itself the value.\<close>

definition req_prompt :: "request \<Rightarrow> json option" where
  "req_prompt req =
     (case req_body req of
        None \<Rightarrow> None
      | Some b \<Rightarrow> if toBoolean b then get_prop b ''prompt'' else Some b)"

text \<open>\<open>file.mimetype || 'image/jpeg'\<close>.\<close>

definition mimeType :: "upload_file \<Rightarrow> string" where
  "mimeType f =
     (case mimetype f of
        None \<Rightarrow> ''image/jpeg''
      | Some m \<Rightarrow> if m \<noteq> [] then m else ''image/jpeg'')"

text \<open>\<open>prompt || 'What is in this image? Describe it in detail.'\<close>.\<close>

definition prompt_or_default :: "json option \<Rightarrow> json" where
  "prompt_or_default p =
     (case p of
        None \<Rightarrow> JStr default_image_prompt
      | Some v \<Rightarrow> if toBoolean v then v else JStr default_image_prompt)"

definition multimodalRequest :: "string \<Rightarrow> string \<Rightarrow> json option \<Rightarrow> json" where
  "multimodalRequest mime base64Image prompt =
     JObj [(''contents'',
       JArr [JObj [(''parts'',
         JArr [JObj [(''inline_data'',
                  JObj [(''mime_type'', JStr mime), (''data'', JStr base64Image)])],
               JObj [(''text'', prompt_or_default prompt)]])]])]"

definition text_request :: "json \<Rightarrow> json" where
  "text_request prompt =
     JObj [(''contents'', JArr [JObj [(''parts'', JArr [JObj [(''text'', prompt)]])]])]"

definition post_json :: "string \<Rightarrow> json \<Rightarrow> http_request" where
  "post_json url v =
     \<lparr>out_url = url, out_method = ''POST'',
      out_headers = [(''Content-Type'', ''application/json'')], out_body = v\<rparr>"

text \<open>The \<open>catch\<close> block of the route.\<close>

definition internal_error :: "reply \<Rightarrow> string \<Rightarrow> reply" where
  "internal_error res msg =
     res_json (res_status res 500)
       (JObj [(''error'', JStr ''Internal server error''), (''message'', JStr msg)])"

text \<open>
  The upstream call and the handling of its answer, written twice in the route (once per
  branch) with the same text: \<open>fetch\<close>, the \<open>!response.ok\<close> branch, and the success
  branch. The second component is the list of outbound requests made.
\<close>

definition forward :: "fetcher \<Rightarrow> reply \<Rightarrow> http_request \<Rightarrow> reply \<times> http_request list" where
  "forward fetch res q =
     (case fetch q of
        Rejected msg \<Rightarrow> (internal_error res msg, [q])
      | Response st b \<Rightarrow>
          (if \<not> response_ok st then
             (case b of
                Unparsable msg \<Rightarrow> (internal_error res msg, [q])
              | Parsed errorData \<Rightarrow>
                  (res_json (res_status res st)
                     (JObj [(''error'', JStr ''Gemini API request failed''),
                            (''details'', errorData)]), [q]))
           else
             (case b of
                Unparsable msg \<Rightarrow> (internal_error res msg, [q])
              | Parsed responseData \<Rightarrow> (res_json res responseData, [q]))))"

definition key_error :: "reply \<Rightarrow> reply" where
  "key_error res =
     res_json (res_status res 500) (JObj [(''error'', JStr ''API_KEY not configured in .env file'')])"

definition missing_prompt :: "reply \<Rightarrow> reply" where
  "missing_prompt res =
     res_json (res_status res 400)
       (JObj [(''error'', JStr ''Prompt is required when no image is uploaded'')])"

definition gemini_route ::
  "string option \<Rightarrow> fetcher \<Rightarrow> request \<Rightarrow> reply \<Rightarrow> reply \<times> http_request list" where
  "gemini_route API_KEY fetch req res =
     (let prompt = req_prompt req in
      case req_file req of
        Some file \<Rightarrow>
          (let base64Image = base64 (buffer file);
               mime = mimeType file
           in case API_KEY of
                None \<Rightarrow> (key_error res, [])
              | Some key \<Rightarrow>
                  if key = [] then (key_error res, [])
                  else forward fetch res
                         (post_json (api_url key) (multimodalRequest mime base64Image prompt)))
      | None \<Rightarrow>
          (case prompt of
             None \<Rightarrow> (missing_prompt res, [])
           | Some p \<Rightarrow>
               if \<not> toBoolean p then (missing_prompt res, [])
               else
                 (case API_KEY of
                    None \<Rightarrow> (key_error res, [])
                  | Some key \<Rightarrow>
                      if key = [] then (key_error res, [])
                      else forward fetch res (post_json (api_url key) (text_request p)))))"

subsection \<open>The application: CORS middleware and routing\<close>

text \<open>
  Express matches a route path without regard to the case of ASCII letters and to one
  trailing slash (case-sensitive and strict routing are off by default).
  \<open>route_matches\<close> takes the route path without its final slash: the empty string for
  the route \<open>/\<close>.
\<close>

definition lower_char :: "char \<Rightarrow> char" where
  "lower_char c =
     (case map_of (zip ''ABCDEFGHIJKLMNOPQRSTUVWXYZ'' ''abcdefghijklmnopqrstuvwxyz'') c of
        None \<Rightarrow> c
      | Some l \<Rightarrow> l)"

definition route_matches :: "string \<Rightarrow> string \<Rightarrow> bool" where
  "route_matches route path =
     (map lower_char path = route \<or> map lower_char path = route @ ''/'')"

text \<open>A route registered with \<open>app.get\<close> also serves \<open>HEAD\<close>.\<close>

definition get_route :: "request \<Rightarrow> string \<Rightarrow> bool" where
  "get_route req route =
     ((req_method req = ''GET'' \<or> req_method req = ''HEAD'') \<and> route_matches route (req_path req))"

definition is_generate :: "request \<Rightarrow> bool" where
  "is_generate req = (req_method req = ''POST'' \<and> route_matches ''/api/gemini'' (req_path req))"

text \<open>No body is written in answer to a \<open>HEAD\<close> request.\<close>

definition send_json :: "request \<Rightarrow> reply \<Rightarrow> json \<Rightarrow> reply" where
  "send_json req res v = (if req_method req = ''HEAD'' then res else res_json res v)"

text \<open>
  Express's default handler: the status, and the page around the message. The headers
  set so far stay.
\<close>

definition final_handler :: "request \<Rightarrow> reply \<Rightarrow> nat \<Rightarrow> string \<Rightarrow> reply" where
  "final_handler req res st msg =
     res\<lparr>rstatus := st,
         rbody := (if req_method req = ''HEAD'' then NoBody else ErrorPage msg)\<rparr>"

definition allowed_origin :: string where
  "allowed_origin = ''http://127.0.0.1:5500''"

definition cors_headers :: "reply \<Rightarrow> reply" where
  "cors_headers res =
     res_header
       (res_header
          (res_header res ''Access-Control-Allow-Origin'' allowed_origin)
          ''Access-Control-Allow-Methods'' ''GET, POST, OPTIONS'')
       ''Access-Control-Allow-Headers'' ''Content-Type''"

definition config_body :: "string option \<Rightarrow> json" where
  "config_body API_KEY =
     JObj (case API_KEY of None \<Rightarrow> [] | Some k \<Rightarrow> [(''API_KEY'', JStr k)])"

text \<open>
  Lines 15 to 135, for a request that both body parsers have accepted: the middleware of
  lines 15 to 26 sets three headers on the reply and answers an \<open>OPTIONS\<close> request
  itself; every other request goes on to the three routes, and a request that matches
  none gets the 404 of the default handler.
\<close>

definition app :: "string option \<Rightarrow> fetcher \<Rightarrow> request \<Rightarrow> reply \<times> http_request list" where
  "app API_KEY fetch req =
     (let res = cors_headers new_reply in
      if req_method req = ''OPTIONS'' then (res_sendStatus_200 res, [])
      else if get_route req [] then
        (send_json req res (JObj [(''message'', JStr ''Gemini API Server is running'')]), [])
      else if get_route req ''/api/config'' then
        (send_json req res (config_body API_KEY), [])
      else if is_generate req then
        gemini_route API_KEY fetch req res
      else
        (final_handler req res 404 (''Cannot '' @ req_method req @ '' '' @ req_path req), []))"

text \<open>
  The whole application, from line 12 on. A request that \<open>express.json()\<close> refuses never
  reaches the middleware of line 15: the default handler answers it, with the status of
  the error and none of the three headers. A request that \<open>upload.single('image')\<close>
  refuses has passed that middleware and is answered by the default handler with 500.
\<close>

definition server ::
  "string option \<Rightarrow> fetcher \<Rightarrow> intake \<Rightarrow> request \<Rightarrow> reply \<times> http_request list" where
  "server API_KEY fetch taken req =
     (case taken of
        JsonRefused st msg \<Rightarrow> (final_handler req new_reply st msg, [])
      | UploadRefused msg \<Rightarrow>
          if is_generate req then (final_handler req (cors_headers new_reply) 500 msg, [])
          else app API_KEY fetch req
      | Accepted \<Rightarrow> app API_KEY fetch req)"

text \<open>The request gets as far as the middleware of line 15.\<close>

definition reaches_cors :: "intake \<Rightarrow> bool" where
  "reaches_cors taken = (case taken of JsonRefused _ _ \<Rightarrow> False | _ \<Rightarrow> True)"

section \<open>Chat client (script of the page)\<close>

subsection \<open>State of the page\<close>

text \<open>
  The four module variables of the script, the parts of the document it reads and
  writes, and what is pending in the browser: timeouts, requests in flight and typing
  intervals. Message elements live in a store, \<open>elems\<close>, and are named by their index
  there; \<open>chatList\<close> lists the children of the chat list, so that an element removed from
  the list can still be written by a timer that holds it. Object URLs are indices into
  \<open>objectURLs\<close>. The markdown renderer (\<open>marked.parse\<close> on a string, and the message
  of the exception it throws on any other value) and the browser's \<open>innerText\<close> getter
  are parameters of the model. Scrolling, syntax highlighting, the copy icons and the
  value of the file input do not reach the state below and are left out.
\<close>

record image_file =
  file_name :: string
  file_type :: string
  file_bytes :: "8 word list"

datatype content = InnerText string | InnerHTML string

datatype kind = Outgoing | Incoming | Loading

record message =
  m_kind :: kind
  m_text :: content
  m_image :: "nat option"
  m_icon_hidden :: bool
  m_error :: bool

record exchange =
  userMessage :: "string option"
  apiResponse :: json
  imageUrl :: "nat option"

datatype form_value = FormText string | FormFile image_file

datatype fetch_body = JsonText json | FormData "(string \<times> form_value) list"

record fetch_options =
  f_url :: string
  f_method :: string
  f_headers :: "(string \<times> string) list"
  f_body :: fetch_body

record typing =
  ty_elem :: nat
  ty_words :: "string list"
  ty_index :: nat
  ty_parsed :: string

record browser =
  marked_parse :: "string \<Rightarrow> string"
  marked_error :: "json \<Rightarrow> string"
  rendered_text :: "content \<Rightarrow> string"

record client =
  prompt :: "string option"
  isResponseGenerating :: bool
  chatHistory :: "exchange list"
  attachedImageFile :: "image_file option"
  promptInput :: string
  elems :: "message list"
  chatList :: "nat list"
  imagePreview :: "nat list"
  objectURLs :: "image_file list"
  hideHeader :: bool
  lightTheme :: bool
  loadingTimeouts :: nat
  pending :: "string option list"
  outbox :: "fetch_options list"
  intervals :: "typing list"

text \<open>
  The state after the script has loaded and \<open>initializeApp\<close> has run. The page's markup
  is not part of the sources: the chat list and the prompt field are taken empty.
\<close>

definition initial_client :: client where
  "initial_client =
     \<lparr>prompt = None, isResponseGenerating = False, chatHistory = [],
      attachedImageFile = None, promptInput = [], elems = [], chatList = [],
      imagePreview = [], objectURLs = [], hideHeader = False, lightTheme = False,
      loadingTimeouts = 0, pending = [], outbox = [], intervals = []\<rparr>"

subsection \<open>Strings\<close>

text \<open>
  \<open>String.prototype.trim\<close> on code units below 256: tab, line feed, vertical tab, form
  feed, carriage return, space and no-break space are white space.
\<close>

definition is_space :: "char \<Rightarrow> bool" where
  "is_space c = (of_char c \<in> {9, 10, 11, 12, 13, 32, 160 :: nat})"

definition trim :: "string \<Rightarrow> string" where
  "trim s = rev (dropWhile is_space (rev (dropWhile is_space s)))"

text \<open>\<open>response.split(" ")\<close>.\<close>

fun split :: "string \<Rightarrow> string list" where
  "split [] = [[]]"
| "split (c # cs) =
     (if c = CHR '' '' then [] # split cs
      else (case split cs of w # ws \<Rightarrow> (c # w) # ws | [] \<Rightarrow> [[c]]))"

text \<open>A string or \<open>null\<close> inside a template literal or given to \<open>FormData.append\<close>.\<close>

definition to_string :: "string option \<Rightarrow> string" where
  "to_string p = (case p of None \<Rightarrow> ''null'' | Some t \<Rightarrow> t)"

definition digit :: "nat \<Rightarrow> char" where
  "digit d = ''0123456789'' ! (d mod 10)"

function decimal :: "nat \<Rightarrow> string" where
  "decimal n = (if n < 10 then [digit n] else decimal (n div 10) @ [digit n])"
  by pat_completeness auto
termination
  by (relation "measure id") auto

subsection \<open>Optional chaining on the reply\<close>

definition opt_prop :: "json option \<Rightarrow> string \<Rightarrow> json option" where
  "opt_prop v k =
     (case v of None \<Rightarrow> None | Some JNull \<Rightarrow> None | Some x \<Rightarrow> get_prop x k)"

fun first_item :: "json \<Rightarrow> json option" where
  "first_item (JArr xs) = (case xs of [] \<Rightarrow> None | x # _ \<Rightarrow> Some x)"
| "first_item (JStr t) = (case t of [] \<Rightarrow> None | c # _ \<Rightarrow> Some (JStr [c]))"
| "first_item (JObj kvs) = map_of kvs ''0''"
| "first_item _ = None"

definition opt_first :: "json option \<Rightarrow> json option" where
  "opt_first v = (case v of None \<Rightarrow> None | Some JNull \<Rightarrow> None | Some x \<Rightarrow> first_item x)"

text \<open>\<open>data?.candidates?.[0]?.content?.parts?.[0]?.text\<close>.\<close>

definition reply_text :: "json \<Rightarrow> json option" where
  "reply_text data =
     opt_prop (opt_first (opt_prop (opt_prop (opt_first (opt_prop (Some data) ''candidates''))
        ''content'') ''parts'')) ''text''"

subsection \<open>Elements\<close>

definition createObjectURL :: "image_file \<Rightarrow> client \<Rightarrow> nat \<times> client" where
  "createObjectURL f s = (length (objectURLs s), s\<lparr>objectURLs := objectURLs s @ [f]\<rparr>)"

text \<open>\<open>chatList.appendChild(createMessageElement(...))\<close>; the result is the new element.\<close>

definition append_message :: "message \<Rightarrow> client \<Rightarrow> nat \<times> client" where
  "append_message m s =
     (length (elems s), s\<lparr>elems := elems s @ [m], chatList := chatList s @ [length (elems s)]\<rparr>)"

definition set_text :: "nat \<Rightarrow> content \<Rightarrow> client \<Rightarrow> client" where
  "set_text e c s =
     (if e < length (elems s) then s\<lparr>elems := (elems s)[e := (elems s ! e)\<lparr>m_text := c\<rparr>]\<rparr>
      else s)"

definition set_icon_hidden :: "nat \<Rightarrow> bool \<Rightarrow> client \<Rightarrow> client" where
  "set_icon_hidden e h s =
     (if e < length (elems s)
      then s\<lparr>elems := (elems s)[e := (elems s ! e)\<lparr>m_icon_hidden := h\<rparr>]\<rparr>
      else s)"

definition set_error :: "nat \<Rightarrow> client \<Rightarrow> client" where
  "set_error e s =
     (if e < length (elems s) then s\<lparr>elems := (elems s)[e := (elems s ! e)\<lparr>m_error := True\<rparr>]\<rparr>
      else s)"

definition is_loading :: "client \<Rightarrow> nat \<Rightarrow> bool" where
  "is_loading s e = (e < length (elems s) \<and> m_kind (elems s ! e) = Loading)"

text \<open>\<open>document.querySelector(".loading")\<close> and \<open>remove()\<close> on the element found.\<close>

definition remove_loading :: "client \<Rightarrow> client" where
  "remove_loading s =
     (case find (is_loading s) (chatList s) of
        None \<Rightarrow> s
      | Some e \<Rightarrow> s\<lparr>chatList := remove1 e (chatList s)\<rparr>)"

subsection \<open>Sending\<close>

definition relay_url :: string where
  "relay_url = ''http://127.0.0.1:3000/api/gemini''"

definition processPrompt :: "string option \<Rightarrow> client \<Rightarrow> client" where
  "processPrompt userPrompt s =
     (let fetchOptions =
        (case attachedImageFile s of
           Some file \<Rightarrow>
             \<lparr>f_url = relay_url, f_method = ''POST'', f_headers = [],
              f_body = FormData [(''prompt'', FormText (to_string userPrompt)),
                                 (''image'', FormFile file)]\<rparr>
         | None \<Rightarrow>
             \<lparr>f_url = relay_url, f_method = ''POST'',
              f_headers = [(''Content-Type'', ''application/json'')],
              f_body = JsonText (JObj [(''prompt'',
                         (case userPrompt of None \<Rightarrow> JNull | Some t \<Rightarrow> JStr t))])\<rparr>)
      in s\<lparr>outbox := outbox s @ [fetchOptions], pending := pending s @ [userPrompt]\<rparr>)"

text \<open>\<open>!prompt\<close> on the module variable, a string or \<open>null\<close>.\<close>

definition no_prompt :: "string option \<Rightarrow> bool" where
  "no_prompt p = (case p of None \<Rightarrow> True | Some t \<Rightarrow> t = [])"

definition handleOutgoingMessage :: "client \<Rightarrow> client" where
  "handleOutgoingMessage s =
     (if (no_prompt (prompt s) \<and> attachedImageFile s = None) \<or> isResponseGenerating s then s
      else
        let s1 = s\<lparr>isResponseGenerating := True\<rparr>;
            (img, s2) =
              (case attachedImageFile s1 of
                 None \<Rightarrow> (None, s1)
               | Some file \<Rightarrow> (let (tmpUrl, s') = createObjectURL file s1 in (Some tmpUrl, s')));
            (outgoingMessageDiv, s3) =
              append_message
                \<lparr>m_kind = Outgoing, m_text = InnerHTML (to_string (prompt s)), m_image = img,
                 m_icon_hidden = False, m_error = False\<rparr> s2;
            s4 = s3\<lparr>promptInput := [], hideHeader := True,
                    loadingTimeouts := Suc (loadingTimeouts s3)\<rparr>
        in processPrompt (prompt s) s4)"

definition showLoadingAnimation :: "client \<Rightarrow> client" where
  "showLoadingAnimation s =
     snd (append_message
       \<lparr>m_kind = Loading, m_text = InnerText [], m_image = None,
        m_icon_hidden = False, m_error = False\<rparr> s)"

definition handleIncomingMessage :: "client \<Rightarrow> nat \<times> client" where
  "handleIncomingMessage s =
     append_message
       \<lparr>m_kind = Incoming, m_text = InnerText [], m_image = None,
        m_icon_hidden = False, m_error = False\<rparr> s"

subsection \<open>Receiving\<close>

definition showTypingEffect :: "string \<Rightarrow> nat \<Rightarrow> string \<Rightarrow> client \<Rightarrow> client" where
  "showTypingEffect response incomingMessageDiv parsedText s =
     (let s1 = set_icon_hidden incomingMessageDiv True s;
          words = split response
      in s1\<lparr>intervals := intervals s1 @
               [\<lparr>ty_elem = incomingMessageDiv, ty_words = words, ty_index = 0,
                 ty_parsed = parsedText\<rparr>]\<rparr>)"

text \<open>
  One run of the interval's callback on the interval that writes element \<open>e\<close>; nothing
  happens when that interval has been cleared. Reading \<open>words[i]\<close> past the end gives
  \<open>undefined\<close>, which \<open>+=\<close> appends as text.
\<close>

definition interval_of :: "client \<Rightarrow> nat \<Rightarrow> typing option" where
  "interval_of s e = find (\<lambda>t. ty_elem t = e) (intervals s)"

definition tick :: "browser \<Rightarrow> nat \<Rightarrow> client \<Rightarrow> client" where
  "tick B e s =
     (case interval_of s e of
        None \<Rightarrow> s
      | Some t \<Rightarrow>
          let word = (if ty_index t < length (ty_words t) then ty_words t ! ty_index t
                      else ''undefined'');
              shown = rendered_text B (m_text (elems s ! e));
              s1 = set_text e
                     (InnerText (shown @ (if ty_index t = 0 then [] else '' '') @ word)) s;
              currWordIndex = Suc (ty_index t)
          in if currWordIndex = length (ty_words t) then
               set_icon_hidden e False
                 (set_text e (InnerHTML (ty_parsed t))
                    (s1\<lparr>intervals := filter (\<lambda>t'. ty_elem t' \<noteq> e) (intervals s1),
                        isResponseGenerating := False\<rparr>))
             else
               s1\<lparr>intervals :=
                    map (\<lambda>t'. if ty_elem t' = e then t'\<lparr>ty_index := currWordIndex\<rparr> else t')
                      (intervals s1)\<rparr>)"

text \<open>The \<open>catch\<close> callback of the request.\<close>

definition show_error :: "string \<Rightarrow> client \<Rightarrow> client" where
  "show_error msg s =
     (let s1 = remove_loading (s\<lparr>isResponseGenerating := False\<rparr>);
          (incomingMessageDiv, s2) = handleIncomingMessage s1
      in set_error incomingMessageDiv
           (set_text incomingMessageDiv (InnerText (''An error occurred: '' @ msg)) s2))"

text \<open>
  The second \<open>then\<close> callback. An exception thrown part of the way keeps the writes made
  before it and continues in the \<open>catch\<close> callback.
\<close>

definition display_reply :: "browser \<Rightarrow> string option \<Rightarrow> json \<Rightarrow> client \<Rightarrow> client" where
  "display_reply B userPrompt data s =
     (let s1 = remove_loading s in
      case reply_text data of
        None \<Rightarrow> show_error ''Invalid response from API'' s1
      | Some v \<Rightarrow>
          if \<not> toBoolean v then show_error ''Invalid response from API'' s1
          else
            (case v of
               JStr rawApiResponse \<Rightarrow>
                 (let parsedApiResponse = marked_parse B rawApiResponse;
                      (incomingMessageDiv, s2) = handleIncomingMessage s1;
                      s3 = (if attachedImageFile s2 \<noteq> None then
                              (set_text incomingMessageDiv (InnerHTML parsedApiResponse) s2)
                                \<lparr>isResponseGenerating := False\<rparr>
                            else showTypingEffect rawApiResponse incomingMessageDiv
                                   parsedApiResponse s2)
                  in case attachedImageFile s3 of
                       Some file \<Rightarrow>
                         (let (localUrl, s4) = createObjectURL file s3
                          in s4\<lparr>chatHistory := chatHistory s4 @
                                   [\<lparr>userMessage = userPrompt, apiResponse = data,
                                     imageUrl = Some localUrl\<rparr>],
                                 attachedImageFile := None, imagePreview := []\<rparr>)
                     | None \<Rightarrow>
                         s3\<lparr>chatHistory := chatHistory s3 @
                              [\<lparr>userMessage = userPrompt, apiResponse = data,
                                imageUrl = None\<rparr>]\<rparr>)
             | _ \<Rightarrow> show_error (marked_error B v) s1))"

text \<open>
  The answer to the \<open>i\<close>-th request in flight arrives: the promise chain of
  \<open>processPrompt\<close> runs with the \<open>userPrompt\<close> of that call.
\<close>

definition receive :: "browser \<Rightarrow> nat \<Rightarrow> fetch_result \<Rightarrow> client \<Rightarrow> client" where
  "receive B i result s =
     (if i < length (pending s) then
        (let userPrompt = pending s ! i;
             s0 = s\<lparr>pending := take i (pending s) @ drop (Suc i) (pending s)\<rparr>
         in case result of
              Rejected msg \<Rightarrow> show_error msg s0
            | Response st b \<Rightarrow>
                if \<not> response_ok st then show_error (''Server error: '' @ decimal st) s0
                else
                  (case b of
                     Unparsable msg \<Rightarrow> show_error msg s0
                   | Parsed data \<Rightarrow> display_reply B userPrompt data s0))
      else s)"

subsection \<open>Events\<close>

text \<open>
  What can happen to the page: the user edits the prompt field, submits the form, clicks
  a suggestion, picks a file (or cancels the picker), clicks the remove button of the
  preview, a loading timeout fires, an answer arrives, a typing interval fires, the user
  answers the confirmation of the delete button, or toggles the theme. An event that
  cannot happen in a state (a button that is not there, a timer that is not pending)
  leaves it as it is.
\<close>

datatype event =
    Input string
  | FormSubmit
  | SuggestionClick string
  | ImageChange "image_file option"
  | RemoveImageClick
  | LoadingTimeout
  | Receive nat fetch_result
  | Tick nat
  | DeleteChat bool
  | ToggleTheme

definition image_change :: "image_file option \<Rightarrow> client \<Rightarrow> client" where
  "image_change picked s =
     (case picked of
        None \<Rightarrow> s
      | Some file \<Rightarrow>
          (let s1 = s\<lparr>attachedImageFile := Some file\<rparr>;
               (url, s2) = createObjectURL file s1
           in s2\<lparr>imagePreview := [url]\<rparr>))"

definition remove_image :: "client \<Rightarrow> client" where
  "remove_image s = s\<lparr>attachedImageFile := None, imagePreview := []\<rparr>"

definition delete_chat :: "client \<Rightarrow> client" where
  "delete_chat s =
     s\<lparr>chatHistory := [], chatList := [], hideHeader := False, prompt := None,
       isResponseGenerating := False, attachedImageFile := None, imagePreview := []\<rparr>"

fun step :: "browser \<Rightarrow> event \<Rightarrow> client \<Rightarrow> client" where
  "step B (Input v) s = s\<lparr>promptInput := v\<rparr>"
| "step B FormSubmit s = handleOutgoingMessage (s\<lparr>prompt := Some (trim (promptInput s))\<rparr>)"
| "step B (SuggestionClick t) s = handleOutgoingMessage (s\<lparr>prompt := Some t\<rparr>)"
| "step B (ImageChange picked) s = image_change picked s"
| "step B RemoveImageClick s = (if imagePreview s = [] then s else remove_image s)"
| "step B LoadingTimeout s =
     (if loadingTimeouts s = 0 then s
      else showLoadingAnimation (s\<lparr>loadingTimeouts := loadingTimeouts s - 1\<rparr>))"
| "step B (Receive i result) s = receive B i result s"
| "step B (Tick e) s = tick B e s"
| "step B (DeleteChat confirmed) s = (if confirmed then delete_chat s else s)"
| "step B ToggleTheme s = s\<lparr>lightTheme := \<not> lightTheme s\<rparr>"

text \<open>The image files a request carries.\<close>

definition form_files :: "fetch_options \<Rightarrow> image_file list" where
  "form_files r =
     (case f_body r of
        JsonText _ \<Rightarrow> []
      | FormData parts \<Rightarrow>
          concat (map (\<lambda>(k, v). case v of FormFile f \<Rightarrow> [f] | FormText _ \<Rightarrow> []) parts))"

text \<open>
  The pending attachment and its preview agree: no file and an empty preview, or one file
  and a preview of exactly one image whose object URL resolves to that file.
\<close>

definition preview_ok :: "client \<Rightarrow> bool" where
  "preview_ok s =
     (case attachedImageFile s of
        None \<Rightarrow> imagePreview s = []
      | Some file \<Rightarrow>
          (case imagePreview s of
             [url] \<Rightarrow> url < length (objectURLs s) \<and> objectURLs s ! url = file
           | _ \<Rightarrow> False))"

definition single_image :: "client \<Rightarrow> bool" where
  "single_image s = list_all (\<lambda>r. length (form_files r) \<le> 1) (outbox s)"

text \<open>Every typing interval writes an element that exists.\<close>

definition timers_ok :: "client \<Rightarrow> bool" where
  "timers_ok s = list_all (\<lambda>t. ty_elem t < length (elems s)) (intervals s)"

fun run :: "browser \<Rightarrow> event list \<Rightarrow> client \<Rightarrow> client" where
  "run B [] s = s"
| "run B (ev # evs) s = run B evs (step B ev s)"

section \<open>Properties of the relay\<close>

subsection \<open>Base64\<close>

lemma b64_alphabet_distinct: "distinct b64_alphabet"
  by (simp add: b64_alphabet_def)

lemma b64_alphabet_length: "length b64_alphabet = 64"
  by (simp add: b64_alphabet_def)

lemma b64_index_char:
  assumes "n < 64"
  shows "b64_index (b64_char n) = Some n"
proof -
  have "map_of (zip b64_alphabet [0..<64]) (b64_alphabet ! n) = Some ([0..<64] ! n)"
    using assms by (intro map_of_zip_nth) (simp_all add: b64_alphabet_distinct b64_alphabet_length)
  then show ?thesis
    using assms by (simp add: b64_index_def b64_char_def)
qed

lemma b64_char_not_pad: 
  assumes "n < 64"
  shows "b64_char n \<noteq> CHR ''=''"
proof -
  have "b64_alphabet ! n \<in> set b64_alphabet"
    using assms by (simp add: b64_alphabet_length)
  moreover have "CHR ''='' \<notin> set b64_alphabet"
    by (simp add: b64_alphabet_def)
  ultimately show ?thesis
    using assms by (auto simp: b64_char_def)
qed

lemma byte_bound: "unat (a :: 8 word) < 256"
  using unsigned_less [of a] by simp

lemma byte_of_unat: "(of_nat (unat (a :: 8 word)) :: 8 word) = a"
  by simp

lemma sextet_bounds:
  fixes x y z :: nat
  assumes "x < 256" and "y < 256" and "z < 256"
  shows "x div 4 < 64" and "(x mod 4) * 16 < 64" and "(x mod 4) * 16 + y div 16 < 64"
    and "(y mod 16) * 4 < 64" and "(y mod 16) * 4 + z div 64 < 64" and "z mod 64 < 64"
  using assms by simp_all

lemma sextets_back:
  fixes x y z :: nat
  assumes "x < 256" and "y < 256" and "z < 256"
  shows "x div 4 * 4 + (x mod 4) * 16 div 16 = x"
    and "x div 4 * 4 + ((x mod 4) * 16 + y div 16) div 16 = x"
    and "((x mod 4) * 16 + y div 16) mod 16 * 16 + (y mod 16) * 4 div 4 = y"
    and "((x mod 4) * 16 + y div 16) mod 16 * 16 + ((y mod 16) * 4 + z div 64) div 4 = y"
    and "((y mod 16) * 4 + z div 64) mod 4 * 64 + z mod 64 = z"
  using assms by (simp_all add: div_mult2_eq [symmetric])

lemma base64_roundtrip: "base64_decode (base64 bytes) = Some bytes"
proof (induction bytes rule: base64.induct)
  case 1
  show ?case by simp
next
  case (2 a)
  note b = sextet_bounds [OF byte_bound [of a] byte_bound [of a] byte_bound [of a]]
  show ?case
    using sextets_back(1) [OF byte_bound [of a] byte_bound [of a] byte_bound [of a]]
    by (simp add: b64_index_char b(1,2))
next
  case (3 a b)
  note bd = sextet_bounds [OF byte_bound [of a] byte_bound [of b] byte_bound [of b]]
  note bk = sextets_back [OF byte_bound [of a] byte_bound [of b] byte_bound [of b]]
  show ?case
    using bk(2,3)
    by (simp add: b64_index_char b64_char_not_pad bd(1,3,4))
next
  case (4 a b c rest)
  note bd = sextet_bounds [OF byte_bound [of a] byte_bound [of b] byte_bound [of c]]
  note bk = sextets_back [OF byte_bound [of a] byte_bound [of b] byte_bound [of c]]
  show ?case
    using bk(2,4,5) "4.IH"
    by (simp add: b64_index_char b64_char_not_pad bd(1,3,5,6))
qed

lemma base64_length: "length (base64 bytes) = 4 * ((length bytes + 2) div 3)"
proof (induction bytes rule: base64.induct)
  case (4 a b c rest)
  have "(length (a # b # c # rest) + 2) div 3 = Suc ((length rest + 2) div 3)"
    by simp
  with "4.IH" show ?case by simp
qed simp_all

subsection \<open>The Generate route\<close>

lemma generate_app:
  assumes "is_generate req"
  shows "app API_KEY fetch req = gemini_route API_KEY fetch req (cors_headers new_reply)"
proof -
  have post: "req_method req = ''POST''"
    using assms by (simp add: is_generate_def)
  have "req_method req \<noteq> ''OPTIONS''" and "\<not> get_route req route" for route
    by (simp_all add: post get_route_def)
  then show ?thesis
    using assms by (simp add: app_def)
qed

lemma forward_calls: "snd (forward fetch res q) = [q]"
  by (simp add: forward_def split: fetch_result.splits upstream_body.splits)

lemma forward_parsed:
  assumes "fetch q = Response S (Parsed B)"
  shows "fst (forward fetch res q) =
           (if response_ok S then res_json res B
            else res_json (res_status res S)
                   (JObj [(''error'', JStr ''Gemini API request failed''), (''details'', B)]))"
  using assms by (simp add: forward_def)

text \<open>
  Claim C1. A Generate call (\<open>POST /api/gemini\<close>) with no image file and a prompt that
  is absent or the empty string is answered with status 400 and an error message, and no
  request is sent upstream.
\<close>

theorem generate_missing_input:
  assumes "is_generate req" and "req_file req = None"
    and "req_prompt req = None \<or> req_prompt req = Some (JStr [])"
  shows "app API_KEY fetch req =
           (\<lparr>rstatus = 400, rheaders = rheaders (cors_headers new_reply),
             rbody = JsonBody (JObj [(''error'', JStr ''Prompt is required when no image is uploaded'')])\<rparr>, [])"
  using assms(2,3)
  by (auto simp: generate_app [OF assms(1)] gemini_route_def missing_prompt_def res_json_def
      res_status_def cors_headers_def res_header_def new_reply_def Let_def)

theorem generate_missing_input_witness:
  "app (Some ''k'') (\<lambda>q. Rejected ''down'')
     \<lparr>req_method = ''POST'', req_path = ''/api/gemini'', req_origin = None,
      req_body = Some (JObj [(''prompt'', JStr [])]), req_file = None\<rparr> =
   (\<lparr>rstatus = 400, rheaders = rheaders (cors_headers new_reply),
     rbody = JsonBody (JObj [(''error'', JStr ''Prompt is required when no image is uploaded'')])\<rparr>, [])"
  by (rule generate_missing_input)
    (simp_all add: is_generate_def route_matches_def lower_char_def req_prompt_def)

text \<open>
  Claim C2. A Generate call that passes input validation (an image is present, or the
  prompt is a non-empty string) while \<open>API_KEY\<close> is unset (or empty) is answered with
  status 500 and the configuration error, and no request is sent upstream.
\<close>

theorem generate_missing_key:
  assumes "is_generate req"
    and "req_file req \<noteq> None \<or> (\<exists>s. req_prompt req = Some (JStr s) \<and> s \<noteq> [])"
    and "API_KEY = None \<or> API_KEY = Some []"
  shows "app API_KEY fetch req =
           (\<lparr>rstatus = 500, rheaders = rheaders (cors_headers new_reply),
             rbody = JsonBody (JObj [(''error'', JStr ''API_KEY not configured in .env file'')])\<rparr>, [])"
  using assms(2,3)
  by (auto simp: generate_app [OF assms(1)] gemini_route_def key_error_def res_json_def
      res_status_def cors_headers_def res_header_def new_reply_def Let_def split: option.splits)

theorem generate_missing_key_witness:
  "app None (\<lambda>q. Rejected ''down'')
     \<lparr>req_method = ''POST'', req_path = ''/api/gemini'', req_origin = None,
      req_body = Some (JObj [(''prompt'', JStr ''Hello'')]), req_file = None\<rparr> =
   (\<lparr>rstatus = 500, rheaders = rheaders (cors_headers new_reply),
     rbody = JsonBody (JObj [(''error'', JStr ''API_KEY not configured in .env file'')])\<rparr>, [])"
  by (rule generate_missing_key)
    (simp_all add: is_generate_def route_matches_def lower_char_def req_prompt_def)

text \<open>
  Claim C3. A Generate call with an image file and the credential set sends upstream a
  body with exactly one content of exactly two parts. The first is the inline-data part:
  its MIME type is \<open>file.mimetype\<close> when that is a non-empty string and \<open>image/jpeg\<close>
  when it is undefined or empty, and its data is the base64 text of the file's bytes,
  four characters for every three bytes, from which the bytes can be read back. The
  second is the text part: the supplied prompt, or the default description prompt when
  no prompt was supplied (the field is absent or empty).
\<close>

theorem image_payload:
  assumes "is_generate req" and "req_file req = Some file"
    and "API_KEY = Some key" and "key \<noteq> []"
    and "(\<exists>m. mimetype file = Some m \<and> m \<noteq> [] \<and> mime = m)
         \<or> ((mimetype file = None \<or> mimetype file = Some []) \<and> mime = ''image/jpeg'')"
    and "(\<exists>s. req_prompt req = Some (JStr s) \<and> s \<noteq> [] \<and> t = s)
         \<or> ((req_prompt req = None \<or> req_prompt req = Some (JStr [])) \<and>
            t = ''What is in this image? Describe it in detail.'')"
  shows "map out_body (snd (app API_KEY fetch req)) =
           [JObj [(''contents'',
              JArr [JObj [(''parts'',
                JArr [JObj [(''inline_data'',
                         JObj [(''mime_type'', JStr mime),
                               (''data'', JStr (base64 (buffer file)))])],
                      JObj [(''text'', JStr t)]])]])]]
       \<and> base64_decode (base64 (buffer file)) = Some (buffer file)
       \<and> length (base64 (buffer file)) = 4 * ((length (buffer file) + 2) div 3)"
proof -
  have mime: "mimeType file = mime"
    using assms(5) by (auto simp: mimeType_def)
  have tpart: "prompt_or_default (req_prompt req) = JStr t"
    using assms(6) by (auto simp: prompt_or_default_def default_image_prompt_def)
  have "snd (app API_KEY fetch req) =
      [post_json (api_url key)
         (multimodalRequest (mimeType file) (base64 (buffer file)) (req_prompt req))]"
    using assms(2,3,4) by (simp add: generate_app [OF assms(1)] gemini_route_def forward_calls)
  then show ?thesis
    by (simp add: post_json_def multimodalRequest_def mime tpart base64_roundtrip base64_length)
qed

theorem image_payload_witness:
  "map out_body (snd (app (Some ''k'') (\<lambda>q. Rejected ''down'')
     \<lparr>req_method = ''POST'', req_path = ''/api/gemini'', req_origin = None,
      req_body = Some (JObj [(''prompt'', JStr ''Describe'')]),
      req_file = Some \<lparr>originalname = ''cat'', mimetype = Some ''image/png'',
                       buffer = [77, 97, 110]\<rparr>\<rparr>)) =
   [JObj [(''contents'',
      JArr [JObj [(''parts'',
        JArr [JObj [(''inline_data'',
                 JObj [(''mime_type'', JStr ''image/png''), (''data'', JStr ''TWFu'')])],
              JObj [(''text'', JStr ''Describe'')]])]])]]
   \<and> map out_body (snd (app (Some ''k'') (\<lambda>q. Rejected ''down'')
     \<lparr>req_method = ''POST'', req_path = ''/api/gemini'', req_origin = None,
      req_body = Some (JObj []),
      req_file = Some \<lparr>originalname = ''cat'', mimetype = None, buffer = [77]\<rparr>\<rparr>)) =
   [JObj [(''contents'',
      JArr [JObj [(''parts'',
        JArr [JObj [(''inline_data'',
                 JObj [(''mime_type'', JStr ''image/jpeg''), (''data'', JStr ''TQ=='')])],
              JObj [(''text'', JStr ''What is in this image? Describe it in detail.'')]])]])]]
   \<and> map out_body (snd (app (Some ''k'') (\<lambda>q. Rejected ''down'')
     \<lparr>req_method = ''POST'', req_path = ''/api/gemini'', req_origin = None,
      req_body = Some (JObj [(''prompt'', JStr [])]),
      req_file = Some \<lparr>originalname = ''cat'', mimetype = Some [], buffer = [77, 97]\<rparr>\<rparr>)) =
   [JObj [(''contents'',
      JArr [JObj [(''parts'',
        JArr [JObj [(''inline_data'',
                 JObj [(''mime_type'', JStr ''image/jpeg''), (''data'', JStr ''TWE='')])],
              JObj [(''text'', JStr ''What is in this image? Describe it in detail.'')]])]])]]"
proof -
  let ?f1 = "\<lparr>originalname = ''cat'', mimetype = Some ''image/png'', buffer = [77, 97, 110]\<rparr>"
  let ?f2 = "\<lparr>originalname = ''cat'', mimetype = None, buffer = [77]\<rparr>"
  let ?f3 = "\<lparr>originalname = ''cat'', mimetype = Some [], buffer = [77, 97]\<rparr>"
  let ?r1 = "\<lparr>req_method = ''POST'', req_path = ''/api/gemini'', req_origin = None,
      req_body = Some (JObj [(''prompt'', JStr ''Describe'')]), req_file = Some ?f1\<rparr>"
  let ?r2 = "\<lparr>req_method = ''POST'', req_path = ''/api/gemini'', req_origin = None,
      req_body = Some (JObj []), req_file = Some ?f2\<rparr>"
  let ?r3 = "\<lparr>req_method = ''POST'', req_path = ''/api/gemini'', req_origin = None,
      req_body = Some (JObj [(''prompt'', JStr [])]), req_file = Some ?f3\<rparr>"
  have gen: "is_generate ?r1" "is_generate ?r2" "is_generate ?r3"
    by (simp_all add: is_generate_def route_matches_def lower_char_def)
  have one: "map out_body (snd (app (Some ''k'') (\<lambda>q. Rejected ''down'') ?r1)) =
      [JObj [(''contents'', JArr [JObj [(''parts'',
        JArr [JObj [(''inline_data'',
                 JObj [(''mime_type'', JStr ''image/png''), (''data'', JStr ''TWFu'')])],
              JObj [(''text'', JStr ''Describe'')]])]])]]"
    using image_payload [OF gen(1), of ?f1 "Some ''k''" "''k''" "''image/png''" "''Describe''"
        "\<lambda>q. Rejected ''down''", THEN conjunct1]
    by (simp add: req_prompt_def b64_char_def b64_alphabet_def)
  have two: "map out_body (snd (app (Some ''k'') (\<lambda>q. Rejected ''down'') ?r2)) =
      [JObj [(''contents'', JArr [JObj [(''parts'',
        JArr [JObj [(''inline_data'',
                 JObj [(''mime_type'', JStr ''image/jpeg''), (''data'', JStr ''TQ=='')])],
              JObj [(''text'', JStr ''What is in this image? Describe it in detail.'')]])]])]]"
    using image_payload [OF gen(2), of ?f2 "Some ''k''" "''k''" "''image/jpeg''"
        "''What is in this image? Describe it in detail.''" "\<lambda>q. Rejected ''down''", THEN conjunct1]
    by (simp add: req_prompt_def b64_char_def b64_alphabet_def)
  have three: "map out_body (snd (app (Some ''k'') (\<lambda>q. Rejected ''down'') ?r3)) =
      [JObj [(''contents'', JArr [JObj [(''parts'',
        JArr [JObj [(''inline_data'',
                 JObj [(''mime_type'', JStr ''image/jpeg''), (''data'', JStr ''TWE='')])],
              JObj [(''text'', JStr ''What is in this image? Describe it in detail.'')]])]])]]"
    using image_payload [OF gen(3), of ?f3 "Some ''k''" "''k''" "''image/jpeg''"
        "''What is in this image? Describe it in detail.''" "\<lambda>q. Rejected ''down''", THEN conjunct1]
    by (simp add: req_prompt_def b64_char_def b64_alphabet_def)
  from one two three show ?thesis
    by simp
qed

text \<open>
  Claim C4. A Generate call without an image, with a non-empty prompt and the credential
  set, sends upstream a body with exactly one content of exactly one text part, equal to
  the supplied prompt.
\<close>

theorem text_payload:
  assumes "is_generate req" and "req_file req = None"
    and "req_prompt req = Some (JStr s)" and "s \<noteq> []"
    and "API_KEY = Some key" and "key \<noteq> []"
  shows "map out_body (snd (app API_KEY fetch req)) =
           [JObj [(''contents'', JArr [JObj [(''parts'', JArr [JObj [(''text'', JStr s)]])]])]]"
  using assms(2-)
  by (simp add: generate_app [OF assms(1)] gemini_route_def forward_calls post_json_def
      text_request_def)

theorem text_payload_witness:
  "map out_body (snd (app (Some ''k'') (\<lambda>q. Rejected ''down'')
     \<lparr>req_method = ''POST'', req_path = ''/api/gemini'', req_origin = None,
      req_body = Some (JObj [(''prompt'', JStr ''Hello'')]), req_file = None\<rparr>)) =
   [JObj [(''contents'', JArr [JObj [(''parts'', JArr [JObj [(''text'', JStr ''Hello'')]])]])]]"
  by (rule text_payload [where key = "''k''"])
    (simp_all add: is_generate_def route_matches_def lower_char_def req_prompt_def)

lemma generate_cases:
  assumes "is_generate req"
  shows "snd (app API_KEY fetch req) = []
       \<or> (\<exists>q. app API_KEY fetch req = forward fetch (cors_headers new_reply) q)"
  by (auto simp: generate_app [OF assms] gemini_route_def Let_def split: option.splits)

text \<open>
  Claim C5. When the upstream request of a Generate call returns a non-success status
  \<open>S\<close> with error body \<open>B\<close>, the relay answers with status \<open>S\<close> and the error
  envelope whose \<open>details\<close> field is \<open>B\<close>; when it returns a success status with body
  \<open>B\<close>, the relay answers with \<open>B\<close> itself.
\<close>

theorem upstream_passthrough:
  assumes "is_generate req" and "snd (app API_KEY fetch req) = [q]"
    and "fetch q = Response S (Parsed B)"
  shows "(\<not> response_ok S \<longrightarrow>
            rstatus (fst (app API_KEY fetch req)) = S \<and>
            rbody (fst (app API_KEY fetch req)) =
              JsonBody (JObj [(''error'', JStr ''Gemini API request failed''), (''details'', B)]))
       \<and> (response_ok S \<longrightarrow>
            rstatus (fst (app API_KEY fetch req)) = 200 \<and>
            rbody (fst (app API_KEY fetch req)) = JsonBody B)"
proof -
  from generate_cases [OF assms(1), of API_KEY fetch] assms(2)
  obtain q' where app: "app API_KEY fetch req = forward fetch (cors_headers new_reply) q'"
    by auto
  with assms(2) have "q' = q"
    by (simp add: forward_calls)
  with app have "fst (app API_KEY fetch req) =
      (if response_ok S then res_json (cors_headers new_reply) B
       else res_json (res_status (cors_headers new_reply) S)
              (JObj [(''error'', JStr ''Gemini API request failed''), (''details'', B)]))"
    using assms(3) by (simp add: forward_parsed)
  then show ?thesis
    by (simp add: res_json_def res_status_def cors_headers_def res_header_def new_reply_def)
qed

theorem upstream_passthrough_witness:
  "rstatus (fst (app (Some ''k'')
       (\<lambda>q. Response 429 (Parsed (JObj [(''error'', JStr ''quota'')])))
       \<lparr>req_method = ''POST'', req_path = ''/api/gemini'', req_origin = None,
        req_body = Some (JObj [(''prompt'', JStr ''Hello'')]), req_file = None\<rparr>)) = 429
   \<and> rbody (fst (app (Some ''k'')
       (\<lambda>q. Response 429 (Parsed (JObj [(''error'', JStr ''quota'')])))
       \<lparr>req_method = ''POST'', req_path = ''/api/gemini'', req_origin = None,
        req_body = Some (JObj [(''prompt'', JStr ''Hello'')]), req_file = None\<rparr>)) =
     JsonBody (JObj [(''error'', JStr ''Gemini API request failed''),
                     (''details'', JObj [(''error'', JStr ''quota'')])])
   \<and> rstatus (fst (app (Some ''k'')
       (\<lambda>q. Response 200 (Parsed (JObj [(''candidates'', JArr [])])))
       \<lparr>req_method = ''POST'', req_path = ''/api/gemini'', req_origin = None,
        req_body = Some (JObj [(''prompt'', JStr ''Hello'')]), req_file = None\<rparr>)) = 200
   \<and> rbody (fst (app (Some ''k'')
       (\<lambda>q. Response 200 (Parsed (JObj [(''candidates'', JArr [])])))
       \<lparr>req_method = ''POST'', req_path = ''/api/gemini'', req_origin = None,
        req_body = Some (JObj [(''prompt'', JStr ''Hello'')]), req_file = None\<rparr>)) =
     JsonBody (JObj [(''candidates'', JArr [])])"
proof -
  let ?req = "\<lparr>req_method = ''POST'', req_path = ''/api/gemini'', req_origin = None,
        req_body = Some (JObj [(''prompt'', JStr ''Hello'')]), req_file = None\<rparr>"
  let ?q = "post_json (api_url ''k'') (text_request (JStr ''Hello''))"
  have gen: "is_generate ?req"
    by (simp add: is_generate_def route_matches_def lower_char_def)
  have calls: "snd (app (Some ''k'') f ?req) = [?q]" for f
    by (simp add: generate_app [OF gen] gemini_route_def req_prompt_def forward_calls)
  have bad: "\<not> response_ok 429" and good: "response_ok 200"
    by (simp_all add: response_ok_def)
  from upstream_passthrough [OF gen calls, of "\<lambda>q. Response 429 (Parsed (JObj [(''error'', JStr ''quota'')]))"
      429 "JObj [(''error'', JStr ''quota'')]"]
    upstream_passthrough [OF gen calls, of "\<lambda>q. Response 200 (Parsed (JObj [(''candidates'', JArr [])]))"
      200 "JObj [(''candidates'', JArr [])]"]
    bad good
  show ?thesis by simp
qed

text \<open>
  Claim C10. A Generate call with an image and a prompt field equal to the empty string
  forwards the default description prompt as the text part, not the empty string.
\<close>

theorem empty_prompt_default:
  assumes "is_generate req" and "req_file req = Some file"
    and "API_KEY = Some key" and "key \<noteq> []"
    and "req_prompt req = Some (JStr [])"
  shows "map out_body (snd (app API_KEY fetch req)) =
           [JObj [(''contents'',
              JArr [JObj [(''parts'',
                JArr [JObj [(''inline_data'',
                         JObj [(''mime_type'', JStr (mimeType file)),
                               (''data'', JStr (base64 (buffer file)))])],
                      JObj [(''text'', JStr ''What is in this image? Describe it in detail.'')]])]])]]"
  using assms(2-)
  by (simp add: generate_app [OF assms(1)] gemini_route_def forward_calls post_json_def
      multimodalRequest_def prompt_or_default_def default_image_prompt_def)

theorem empty_prompt_default_witness:
  "map out_body (snd (app (Some ''k'') (\<lambda>q. Rejected ''down'')
     \<lparr>req_method = ''POST'', req_path = ''/api/gemini'', req_origin = None,
      req_body = Some (JObj [(''prompt'', JStr [])]),
      req_file = Some \<lparr>originalname = ''cat'', mimetype = Some ''image/png'', buffer = [77]\<rparr>\<rparr>)) =
   [JObj [(''contents'',
      JArr [JObj [(''parts'',
        JArr [JObj [(''inline_data'',
                 JObj [(''mime_type'', JStr ''image/png''), (''data'', JStr ''TQ=='')])],
              JObj [(''text'', JStr ''What is in this image? Describe it in detail.'')]])]])]]"
  using empty_prompt_default [of
     "\<lparr>req_method = ''POST'', req_path = ''/api/gemini'', req_origin = None,
      req_body = Some (JObj [(''prompt'', JStr [])]),
      req_file = Some \<lparr>originalname = ''cat'', mimetype = Some ''image/png'', buffer = [77]\<rparr>\<rparr>"
     "\<lparr>originalname = ''cat'', mimetype = Some ''image/png'', buffer = [77]\<rparr>"
     "Some ''k''" "''k''" "\<lambda>q. Rejected ''down''"]
  by (simp add: is_generate_def route_matches_def lower_char_def req_prompt_def mimeType_def
      b64_char_def b64_alphabet_def)

subsection \<open>Origins and pre-flight requests\<close>

lemma cors_headers_new_reply:
  "cors_headers new_reply =
     \<lparr>rstatus = 200,
      rheaders = [(''Access-Control-Allow-Origin'', ''http://127.0.0.1:5500''),
                  (''Access-Control-Allow-Methods'', ''GET, POST, OPTIONS''),
                  (''Access-Control-Allow-Headers'', ''Content-Type'')],
      rbody = NoBody\<rparr>"
  by (simp add: cors_headers_def res_header_def new_reply_def allowed_origin_def)

lemma forward_headers: "rheaders (fst (forward fetch res q)) = rheaders res"
  by (simp add: forward_def internal_error_def res_json_def res_status_def
      split: fetch_result.splits upstream_body.splits)

lemma gemini_route_headers: "rheaders (fst (gemini_route API_KEY fetch req res)) = rheaders res"
  by (simp add: gemini_route_def forward_headers missing_prompt_def key_error_def
      res_json_def res_status_def Let_def split: option.splits)

lemma app_headers:
  "rheaders (fst (app API_KEY fetch req)) = rheaders (cors_headers new_reply)"
  by (simp add: app_def gemini_route_headers res_sendStatus_200_def send_json_def res_json_def
      final_handler_def Let_def)

lemma gemini_route_origin:
  "gemini_route API_KEY fetch (req\<lparr>req_origin := other\<rparr>) res = gemini_route API_KEY fetch req res"
  by (simp add: gemini_route_def req_prompt_def)

lemma routing_origin:
  "get_route (req\<lparr>req_origin := other\<rparr>) route = get_route req route"
  "is_generate (req\<lparr>req_origin := other\<rparr>) = is_generate req"
  "send_json (req\<lparr>req_origin := other\<rparr>) res v = send_json req res v"
  "final_handler (req\<lparr>req_origin := other\<rparr>) res st msg = final_handler req res st msg"
  by (simp_all add: get_route_def is_generate_def send_json_def final_handler_def)

lemma app_origin: "app API_KEY fetch (req\<lparr>req_origin := other\<rparr>) = app API_KEY fetch req"
  by (simp add: app_def gemini_route_origin routing_origin Let_def cong: if_cong)

lemma server_origin:
  "server API_KEY fetch taken (req\<lparr>req_origin := other\<rparr>) = server API_KEY fetch taken req"
  by (simp add: server_def app_origin routing_origin split: intake.splits)

lemma server_headers:
  assumes "reaches_cors taken"
  shows "rheaders (fst (server API_KEY fetch taken req)) = rheaders (cors_headers new_reply)"
  using assms
  by (simp add: server_def reaches_cors_def app_headers final_handler_def split: intake.splits)

lemma server_options:
  assumes "reaches_cors taken" and "req_method req = ''OPTIONS''"
  shows "server API_KEY fetch taken req = (res_sendStatus_200 (cors_headers new_reply), [])"
proof -
  have "\<not> is_generate req"
    using assms(2) by (simp add: is_generate_def)
  moreover have "app API_KEY fetch req = (res_sendStatus_200 (cors_headers new_reply), [])"
    using assms(2) by (simp add: app_def)
  ultimately show ?thesis
    using assms(1) by (simp add: server_def reaches_cors_def split: intake.splits)
qed

text \<open>
  Claim C6, as amended. For a request that the JSON body parser lets through, the reply
  names the single allowed origin in its \<open>Access-Control-Allow-Origin\<close> header; the
  relay rejects no request for its origin, the reply being the same whatever the origin
  of the request is; and every such \<open>OPTIONS\<close> request is answered with status 200 and
  the text body \<open>OK\<close>.
\<close>

theorem cors_policy:
  "(reaches_cors taken \<longrightarrow>
      rheaders (fst (server API_KEY fetch taken req)) =
        [(''Access-Control-Allow-Origin'', ''http://127.0.0.1:5500''),
         (''Access-Control-Allow-Methods'', ''GET, POST, OPTIONS''),
         (''Access-Control-Allow-Headers'', ''Content-Type'')])
   \<and> server API_KEY fetch taken (req\<lparr>req_origin := other\<rparr>) = server API_KEY fetch taken req
   \<and> (reaches_cors taken \<and> req_method req = ''OPTIONS'' \<longrightarrow>
        rstatus (fst (server API_KEY fetch taken req)) = 200 \<and>
        rbody (fst (server API_KEY fetch taken req)) = TextBody ''OK'')"
  by (simp add: server_headers server_origin server_options cors_headers_new_reply
      res_sendStatus_200_def)

theorem cors_policy_witness:
  "rheaders (fst (server None (\<lambda>q. Rejected ''down'') Accepted
     \<lparr>req_method = ''OPTIONS'', req_path = ''/api/gemini'',
      req_origin = Some ''http://evil.example'', req_body = None, req_file = None\<rparr>)) =
     [(''Access-Control-Allow-Origin'', ''http://127.0.0.1:5500''),
      (''Access-Control-Allow-Methods'', ''GET, POST, OPTIONS''),
      (''Access-Control-Allow-Headers'', ''Content-Type'')]
   \<and> server None (\<lambda>q. Rejected ''down'') Accepted
     \<lparr>req_method = ''OPTIONS'', req_path = ''/api/gemini'',
      req_origin = Some ''http://127.0.0.1:5500'', req_body = None, req_file = None\<rparr> =
     server None (\<lambda>q. Rejected ''down'') Accepted
     \<lparr>req_method = ''OPTIONS'', req_path = ''/api/gemini'',
      req_origin = Some ''http://evil.example'', req_body = None, req_file = None\<rparr>
   \<and> rstatus (fst (server None (\<lambda>q. Rejected ''down'') Accepted
     \<lparr>req_method = ''OPTIONS'', req_path = ''/api/gemini'',
      req_origin = Some ''http://evil.example'', req_body = None, req_file = None\<rparr>)) = 200
   \<and> rbody (fst (server None (\<lambda>q. Rejected ''down'') Accepted
     \<lparr>req_method = ''OPTIONS'', req_path = ''/api/gemini'',
      req_origin = Some ''http://evil.example'', req_body = None, req_file = None\<rparr>)) =
     TextBody ''OK''"
  using cors_policy [of Accepted None "\<lambda>q. Rejected ''down''"
     "\<lparr>req_method = ''OPTIONS'', req_path = ''/api/gemini'',
      req_origin = Some ''http://evil.example'', req_body = None, req_file = None\<rparr>"
     "Some ''http://127.0.0.1:5500''"]
  by (simp add: reaches_cors_def)

text \<open>
  Claim C6 as stated fails three times: a Generate call from another origin is admitted,
  forwarded upstream and answered with the upstream body; the reply to a pre-flight
  request has the body \<open>OK\<close>; and a pre-flight request whose JSON body the parser
  refuses, even from the allowed origin, is answered 400 without any of the headers.
\<close>

theorem foreign_origin_served:
  "server (Some ''k'') (\<lambda>q. Response 200 (Parsed (JObj [(''candidates'', JArr [])]))) Accepted
     \<lparr>req_method = ''POST'', req_path = ''/api/gemini'',
      req_origin = Some ''http://evil.example'',
      req_body = Some (JObj [(''prompt'', JStr ''Hello'')]), req_file = None\<rparr> =
   (\<lparr>rstatus = 200,
     rheaders = [(''Access-Control-Allow-Origin'', ''http://127.0.0.1:5500''),
                 (''Access-Control-Allow-Methods'', ''GET, POST, OPTIONS''),
                 (''Access-Control-Allow-Headers'', ''Content-Type'')],
     rbody = JsonBody (JObj [(''candidates'', JArr [])])\<rparr>,
    [\<lparr>out_url = ''https://generativelanguage.googleapis.com/v1/models/gemini-2.5-flash:generateContent?key=k'',
      out_method = ''POST'', out_headers = [(''Content-Type'', ''application/json'')],
      out_body = JObj [(''contents'', JArr [JObj [(''parts'', JArr [JObj [(''text'', JStr ''Hello'')]])]])]\<rparr>])
   \<and> rbody (fst (server (Some ''k'') (\<lambda>q. Rejected ''down'') Accepted
       \<lparr>req_method = ''OPTIONS'', req_path = ''/api/gemini'',
        req_origin = Some ''http://evil.example'', req_body = None, req_file = None\<rparr>)) =
     TextBody ''OK''
   \<and> server (Some ''k'') (\<lambda>q. Rejected ''down'') (JsonRefused 400 ''Bad Request'')
       \<lparr>req_method = ''OPTIONS'', req_path = ''/api/gemini'',
        req_origin = Some ''http://127.0.0.1:5500'', req_body = None, req_file = None\<rparr> =
     (\<lparr>rstatus = 400, rheaders = [], rbody = ErrorPage ''Bad Request''\<rparr>, [])"
proof -
  let ?req = "\<lparr>req_method = ''POST'', req_path = ''/api/gemini'',
      req_origin = Some ''http://evil.example'',
      req_body = Some (JObj [(''prompt'', JStr ''Hello'')]), req_file = None\<rparr>"
  have gen: "is_generate ?req"
    by (simp add: is_generate_def route_matches_def lower_char_def)
  have "server (Some ''k'') (\<lambda>q. Response 200 (Parsed (JObj [(''candidates'', JArr [])]))) Accepted ?req =
      gemini_route (Some ''k'') (\<lambda>q. Response 200 (Parsed (JObj [(''candidates'', JArr [])]))) ?req
        (cors_headers new_reply)"
    by (simp add: server_def generate_app [OF gen])
  also have "\<dots> =
    (\<lparr>rstatus = 200,
      rheaders = [(''Access-Control-Allow-Origin'', ''http://127.0.0.1:5500''),
                 (''Access-Control-Allow-Methods'', ''GET, POST, OPTIONS''),
                 (''Access-Control-Allow-Headers'', ''Content-Type'')],
      rbody = JsonBody (JObj [(''candidates'', JArr [])])\<rparr>,
     [\<lparr>out_url = ''https://generativelanguage.googleapis.com/v1/models/gemini-2.5-flash:generateContent?key=k'',
       out_method = ''POST'', out_headers = [(''Content-Type'', ''application/json'')],
       out_body = JObj [(''contents'', JArr [JObj [(''parts'', JArr [JObj [(''text'', JStr ''Hello'')]])]])]\<rparr>])"
    by (simp add: gemini_route_def req_prompt_def forward_def response_ok_def
        res_json_def cors_headers_new_reply post_json_def api_url_def text_request_def)
  finally have served: "server (Some ''k'')
      (\<lambda>q. Response 200 (Parsed (JObj [(''candidates'', JArr [])]))) Accepted ?req =
    (\<lparr>rstatus = 200,
      rheaders = [(''Access-Control-Allow-Origin'', ''http://127.0.0.1:5500''),
                 (''Access-Control-Allow-Methods'', ''GET, POST, OPTIONS''),
                 (''Access-Control-Allow-Headers'', ''Content-Type'')],
      rbody = JsonBody (JObj [(''candidates'', JArr [])])\<rparr>,
     [\<lparr>out_url = ''https://generativelanguage.googleapis.com/v1/models/gemini-2.5-flash:generateContent?key=k'',
       out_method = ''POST'', out_headers = [(''Content-Type'', ''application/json'')],
       out_body = JObj [(''contents'', JArr [JObj [(''parts'', JArr [JObj [(''text'', JStr ''Hello'')]])]])]\<rparr>])" .
  have preflight: "rbody (fst (server (Some ''k'') (\<lambda>q. Rejected ''down'') Accepted
       \<lparr>req_method = ''OPTIONS'', req_path = ''/api/gemini'',
        req_origin = Some ''http://evil.example'', req_body = None, req_file = None\<rparr>)) =
     TextBody ''OK''"
    by (simp add: server_def app_def res_sendStatus_200_def)
  have refused: "server (Some ''k'') (\<lambda>q. Rejected ''down'') (JsonRefused 400 ''Bad Request'')
       \<lparr>req_method = ''OPTIONS'', req_path = ''/api/gemini'',
        req_origin = Some ''http://127.0.0.1:5500'', req_body = None, req_file = None\<rparr> =
     (\<lparr>rstatus = 400, rheaders = [], rbody = ErrorPage ''Bad Request''\<rparr>, [])"
    by (simp add: server_def final_handler_def new_reply_def)
  from served preflight refused show ?thesis
    by (intro conjI)
qed

section \<open>Properties of the chat client\<close>

subsection \<open>Submitting\<close>

lemma handleOutgoingMessage_ignored:
  assumes "(no_prompt (prompt s) \<and> attachedImageFile s = None) \<or> isResponseGenerating s"
  shows "handleOutgoingMessage s = s"
  using assms by (auto simp: handleOutgoingMessage_def)

text \<open>
  Claim C7. When the trimmed text of the prompt field is empty and no image is attached,
  or a response is being generated, \<open>handleOutgoingMessage\<close> returns the state it was
  given: the submit handler appends nothing to the chat list or the history and issues no
  request. All the submit listener has done is to store the trimmed text in \<open>prompt\<close>.
\<close>

theorem submit_ignored:
  assumes "(trim (promptInput s) = [] \<and> attachedImageFile s = None) \<or> isResponseGenerating s"
    and "s' = s\<lparr>prompt := Some (trim (promptInput s))\<rparr>"
  shows "handleOutgoingMessage s' = s'
       \<and> step B FormSubmit s = s'
       \<and> chatList (step B FormSubmit s) = chatList s
       \<and> elems (step B FormSubmit s) = elems s
       \<and> chatHistory (step B FormSubmit s) = chatHistory s
       \<and> outbox (step B FormSubmit s) = outbox s
       \<and> pending (step B FormSubmit s) = pending s
       \<and> isResponseGenerating (step B FormSubmit s) = isResponseGenerating s"
proof -
  have "(no_prompt (prompt s') \<and> attachedImageFile s' = None) \<or> isResponseGenerating s'"
    using assms by (auto simp: no_prompt_def)
  then have "handleOutgoingMessage s' = s'"
    by (rule handleOutgoingMessage_ignored)
  then show ?thesis
    using assms(2) by simp
qed

theorem submit_ignored_witness:
  "step \<lparr>marked_parse = (\<lambda>t. t), marked_error = (\<lambda>v. []), rendered_text = (\<lambda>c. [])\<rparr>
     FormSubmit (initial_client\<lparr>promptInput := ''  ''\<rparr>) =
   initial_client\<lparr>promptInput := ''  '', prompt := Some []\<rparr>
   \<and> outbox (step \<lparr>marked_parse = (\<lambda>t. t), marked_error = (\<lambda>v. []), rendered_text = (\<lambda>c. [])\<rparr>
     FormSubmit (initial_client\<lparr>promptInput := ''  ''\<rparr>)) = []"
  using submit_ignored [of "initial_client\<lparr>promptInput := ''  ''\<rparr>"
      "initial_client\<lparr>promptInput := ''  '', prompt := Some []\<rparr>"
      "\<lparr>marked_parse = (\<lambda>t. t), marked_error = (\<lambda>v. []), rendered_text = (\<lambda>c. [])\<rparr>"]
  by (simp add: trim_def is_space_def initial_client_def)

subsection \<open>The pending attachment\<close>

lemma set_text_frame:
  "attachedImageFile (set_text e c s) = attachedImageFile s"
  "imagePreview (set_text e c s) = imagePreview s"
  "objectURLs (set_text e c s) = objectURLs s"
  "outbox (set_text e c s) = outbox s"
  by (simp_all add: set_text_def)

lemma set_icon_hidden_frame:
  "attachedImageFile (set_icon_hidden e h s) = attachedImageFile s"
  "imagePreview (set_icon_hidden e h s) = imagePreview s"
  "objectURLs (set_icon_hidden e h s) = objectURLs s"
  "outbox (set_icon_hidden e h s) = outbox s"
  by (simp_all add: set_icon_hidden_def)

lemma set_error_frame:
  "attachedImageFile (set_error e s) = attachedImageFile s"
  "imagePreview (set_error e s) = imagePreview s"
  "objectURLs (set_error e s) = objectURLs s"
  "outbox (set_error e s) = outbox s"
  by (simp_all add: set_error_def)

lemma remove_loading_frame:
  "attachedImageFile (remove_loading s) = attachedImageFile s"
  "imagePreview (remove_loading s) = imagePreview s"
  "objectURLs (remove_loading s) = objectURLs s"
  "outbox (remove_loading s) = outbox s"
  by (simp_all add: remove_loading_def split: option.splits)

lemma append_message_frame:
  "attachedImageFile (snd (append_message m s)) = attachedImageFile s"
  "imagePreview (snd (append_message m s)) = imagePreview s"
  "objectURLs (snd (append_message m s)) = objectURLs s"
  "outbox (snd (append_message m s)) = outbox s"
  by (simp_all add: append_message_def)

lemmas frame = set_text_frame set_icon_hidden_frame set_error_frame remove_loading_frame
  append_message_frame

lemma show_error_frame:
  "attachedImageFile (show_error msg s) = attachedImageFile s"
  "imagePreview (show_error msg s) = imagePreview s"
  "objectURLs (show_error msg s) = objectURLs s"
  "outbox (show_error msg s) = outbox s"
  by (simp_all add: show_error_def handleIncomingMessage_def split_def Let_def frame)

lemma showTypingEffect_frame:
  "attachedImageFile (showTypingEffect r e p s) = attachedImageFile s"
  "imagePreview (showTypingEffect r e p s) = imagePreview s"
  "objectURLs (showTypingEffect r e p s) = objectURLs s"
  "outbox (showTypingEffect r e p s) = outbox s"
  by (simp_all add: showTypingEffect_def Let_def frame)

lemma tick_frame:
  "attachedImageFile (tick B e s) = attachedImageFile s"
  "imagePreview (tick B e s) = imagePreview s"
  "objectURLs (tick B e s) = objectURLs s"
  "outbox (tick B e s) = outbox s"
  by (simp_all add: tick_def Let_def frame split: option.splits)

lemma preview_ok_cong:
  assumes "attachedImageFile s' = attachedImageFile s" "imagePreview s' = imagePreview s"
    "objectURLs s' = objectURLs s"
  shows "preview_ok s' = preview_ok s"
  using assms by (simp add: preview_ok_def split: option.splits list.splits)

lemma single_image_cong:
  assumes "outbox s' = outbox s"
  shows "single_image s' = single_image s"
  using assms by (simp add: single_image_def)

lemma preview_ok_cleared:
  assumes "attachedImageFile s = None" "imagePreview s = []"
  shows "preview_ok s"
  using assms by (simp add: preview_ok_def)

lemma preview_ok_new_url:
  assumes "preview_ok s"
  shows "preview_ok (s\<lparr>objectURLs := objectURLs s @ [f]\<rparr>)"
  using assms by (auto simp: preview_ok_def nth_append split: option.splits list.splits)

lemma display_reply_preview: 
  assumes "preview_ok s"
  shows "preview_ok (display_reply B up data s)"
proof -
  let ?s1 = "remove_loading s"
  have s1: "preview_ok ?s1"
    using assms by (simp add: preview_ok_cong [of ?s1 s] frame)
  have err: "preview_ok (show_error msg ?s1)" for msg
    using s1 by (simp add: preview_ok_cong [of "show_error msg ?s1" ?s1] show_error_frame)
  show ?thesis
  proof (cases "reply_text data")
    case None
    then show ?thesis by (simp add: display_reply_def Let_def err)
  next
    case (Some v)
    show ?thesis
    proof (cases "\<exists>t. v = JStr t \<and> t \<noteq> []")
      case False
      then show ?thesis using Some
        by (cases v) (simp_all add: display_reply_def Let_def err)
    next
      case True
      then obtain t where v: "v = JStr t" "t \<noteq> []" by blast
      show ?thesis
      proof (cases "attachedImageFile s")
        case None
        then show ?thesis using Some v s1
          by (simp add: display_reply_def handleIncomingMessage_def split_def Let_def frame
              showTypingEffect_frame preview_ok_def)
      next
        case (Some f)
        then show ?thesis using \<open>reply_text data = Some v\<close> v
          by (simp add: display_reply_def handleIncomingMessage_def split_def Let_def frame
              createObjectURL_def preview_ok_def)
      qed
    qed
  qed
qed

lemma display_reply_outbox: "outbox (display_reply B up data s) = outbox s"
proof (cases "reply_text data")
  case None
  then show ?thesis by (simp add: display_reply_def Let_def show_error_frame frame)
next
  case (Some v)
  show ?thesis
  proof (cases "attachedImageFile s")
    case None
    then show ?thesis using Some
      by (cases v) (simp_all add: display_reply_def handleIncomingMessage_def split_def Let_def 
        frame  show_error_frame showTypingEffect_frame)
  next
    case (Some f)
    then show ?thesis using \<open>reply_text data = Some v\<close>
      by (cases v) (simp_all add: display_reply_def handleIncomingMessage_def split_def Let_def
        frame show_error_frame createObjectURL_def)
  qed
qed

lemma show_error_preview: "preview_ok (show_error msg s) = preview_ok s"
  by (rule preview_ok_cong) (simp_all add: show_error_frame)

lemma receive_preview:
  assumes "preview_ok s"
  shows "preview_ok (receive B i result s)"
proof (cases "i < length (pending s)")
  case False
  then show ?thesis using assms by (simp add: receive_def)
next
  case True
  let ?s0 = "s\<lparr>pending := take i (pending s) @ drop (Suc i) (pending s)\<rparr>"
  have s0: "preview_ok ?s0"
    using assms preview_ok_cong [of ?s0 s] by simp
  show ?thesis
    using True s0
    by (simp add: receive_def Let_def show_error_preview display_reply_preview
        split: fetch_result.splits upstream_body.splits)
qed

lemma receive_outbox: "outbox (receive B i result s) = outbox s"
  by (simp add: receive_def Let_def show_error_frame display_reply_outbox
      split: fetch_result.splits upstream_body.splits)

lemma form_files_processPrompt:
  "outbox (processPrompt up s) = outbox s @ [r] \<Longrightarrow> length (form_files r) \<le> 1"
  by (auto simp: processPrompt_def form_files_def Let_def split: option.splits)

lemma processPrompt_frame:
  "attachedImageFile (processPrompt up s) = attachedImageFile s"
  "imagePreview (processPrompt up s) = imagePreview s"
  "objectURLs (processPrompt up s) = objectURLs s"
  by (simp_all add: processPrompt_def Let_def)

lemma processPrompt_single:
  assumes "single_image s"
  shows "single_image (processPrompt up s)"
  using assms
  by (simp add: single_image_def processPrompt_def form_files_def Let_def split: option.splits)

lemma preview_ok_grow:
  assumes "preview_ok s" and "attachedImageFile s' = attachedImageFile s"
    and "imagePreview s' = imagePreview s" and "objectURLs s' = objectURLs s @ ys"
  shows "preview_ok s'"
  using assms by (auto simp: preview_ok_def nth_append split: option.splits list.splits)

lemma handleOutgoingMessage_frame:
  "attachedImageFile (handleOutgoingMessage s) = attachedImageFile s"
  "imagePreview (handleOutgoingMessage s) = imagePreview s"
  "\<exists>ys. objectURLs (handleOutgoingMessage s) = objectURLs s @ ys"
  by (cases "attachedImageFile s";
      simp add: handleOutgoingMessage_def Let_def split_def append_message_def
        processPrompt_def createObjectURL_def)+

lemma handleOutgoingMessage_preview:
  assumes "preview_ok s"
  shows "preview_ok (handleOutgoingMessage s)"
proof -
  obtain ys where "objectURLs (handleOutgoingMessage s) = objectURLs s @ ys"
    using handleOutgoingMessage_frame(3) by blast
  then show ?thesis
    using assms preview_ok_grow [of s "handleOutgoingMessage s" ys]
    by (simp add: handleOutgoingMessage_frame)
qed

lemma handleOutgoingMessage_single:
  assumes "single_image s"
  shows "single_image (handleOutgoingMessage s)"
proof (cases "(no_prompt (prompt s) \<and> attachedImageFile s = None) \<or> isResponseGenerating s")
  case True
  then show ?thesis using assms by (simp add: handleOutgoingMessage_def)
next
  case False
  have "single_image (processPrompt up s')" if "outbox s' = outbox s" for up s'
    using that assms single_image_cong [of s' s] by (simp add: processPrompt_single)
  then show ?thesis
    by (cases "attachedImageFile s")
      (simp_all add: handleOutgoingMessage_def Let_def split_def append_message_def
        createObjectURL_def assms)
qed

lemma image_change_attaches:
  "attachedImageFile (image_change (Some f) s) = Some f"
  "imagePreview (image_change (Some f) s) = [length (objectURLs s)]"
  "objectURLs (image_change (Some f) s) = objectURLs s @ [f]"
  by (simp_all add: image_change_def createObjectURL_def)

lemma image_change_preview:
  assumes "preview_ok s"
  shows "preview_ok (image_change picked s)"
proof (cases picked)
  case None
  then show ?thesis using assms by (simp add: image_change_def)
next
  case (Some f)
  then show ?thesis by (simp add: preview_ok_def image_change_attaches)
qed

lemma image_change_outbox: "outbox (image_change picked s) = outbox s"
  by (simp add: image_change_def createObjectURL_def split: option.splits)

lemma step_preview:
  assumes "preview_ok s"
  shows "preview_ok (step B ev s)"
proof (cases ev)
  case (Input v)
  then show ?thesis using assms preview_ok_cong [of "s\<lparr>promptInput := v\<rparr>" s] by simp
next
  case FormSubmit
  have "preview_ok (s\<lparr>prompt := Some (trim (promptInput s))\<rparr>)"
    using assms preview_ok_cong [of "s\<lparr>prompt := Some (trim (promptInput s))\<rparr>" s] by simp
  then show ?thesis using FormSubmit by (simp add: handleOutgoingMessage_preview)
next
  case (SuggestionClick t)
  have "preview_ok (s\<lparr>prompt := Some t\<rparr>)"
    using assms preview_ok_cong [of "s\<lparr>prompt := Some t\<rparr>" s] by simp
  then show ?thesis using SuggestionClick by (simp add: handleOutgoingMessage_preview)
next
  case (ImageChange picked)
  then show ?thesis using assms by (simp add: image_change_preview)
next
  case RemoveImageClick
  then show ?thesis using assms by (simp add: remove_image_def preview_ok_def)
next
  case LoadingTimeout
  have "preview_ok (showLoadingAnimation (s\<lparr>loadingTimeouts := loadingTimeouts s - 1\<rparr>))"
    using assms
      preview_ok_cong [of "showLoadingAnimation (s\<lparr>loadingTimeouts := loadingTimeouts s - 1\<rparr>)" s]
    by (simp add: showLoadingAnimation_def append_message_def)
  then show ?thesis using LoadingTimeout assms by simp
next
  case (Receive i result)
  then show ?thesis using assms by (simp add: receive_preview)
next
  case (Tick e)
  then show ?thesis using assms preview_ok_cong [of "tick B e s" s] by (simp add: tick_frame)
next
  case (DeleteChat confirmed)
  then show ?thesis using assms by (simp add: delete_chat_def preview_ok_def)
next
  case ToggleTheme
  then show ?thesis using assms preview_ok_cong [of "s\<lparr>lightTheme := \<not> lightTheme s\<rparr>" s] by simp
qed

lemma step_single:
  assumes "single_image s"
  shows "single_image (step B ev s)"
proof (cases ev)
  case FormSubmit
  have "single_image (s\<lparr>prompt := Some (trim (promptInput s))\<rparr>)"
    using assms by (simp add: single_image_def)
  then show ?thesis using FormSubmit by (simp add: handleOutgoingMessage_single)
next
  case (SuggestionClick t)
  have "single_image (s\<lparr>prompt := Some t\<rparr>)"
    using assms by (simp add: single_image_def)
  then show ?thesis using SuggestionClick by (simp add: handleOutgoingMessage_single)
next
  case (Receive i result)
  then show ?thesis using assms by (simp add: single_image_def receive_outbox)
next
  case (Tick e)
  then show ?thesis using assms by (simp add: single_image_def tick_frame)
qed (use assms in \<open>simp_all add: single_image_def image_change_outbox remove_image_def
      showLoadingAnimation_def append_message_def delete_chat_def\<close>)

lemma run_preview: "preview_ok s \<Longrightarrow> preview_ok (run B evs s)"
  by (induction evs arbitrary: s) (simp_all add: step_preview)

lemma run_single: "single_image s \<Longrightarrow> single_image (run B evs s)"
  by (induction evs arbitrary: s) (simp_all add: step_single)

lemma preview_ok_length: "preview_ok s \<Longrightarrow> length (imagePreview s) \<le> 1"
  by (auto simp: preview_ok_def split: option.splits list.splits)

text \<open>
  Claim C9. In every state the page can reach, the pending attachment and the preview
  agree and the preview shows at most one image, and no request sent carries more than
  one image; picking a file in any state makes that file the pending attachment and the
  only image of the preview.
\<close>

theorem single_attachment:
  "preview_ok (run B evs initial_client)
   \<and> length (imagePreview (run B evs initial_client)) \<le> 1
   \<and> single_image (run B evs initial_client)
   \<and> attachedImageFile (step B (ImageChange (Some f)) s) = Some f
   \<and> imagePreview (step B (ImageChange (Some f)) s) = [length (objectURLs s)]
   \<and> objectURLs (step B (ImageChange (Some f)) s) ! length (objectURLs s) = f"
proof -
  have "preview_ok initial_client" and "single_image initial_client"
    by (simp_all add: preview_ok_def single_image_def initial_client_def)
  then have "preview_ok (run B evs initial_client)" and "single_image (run B evs initial_client)"
    by (simp_all add: run_preview run_single)
  then show ?thesis
    using preview_ok_length [of "run B evs initial_client"]
    by (simp add: image_change_attaches)
qed

theorem single_attachment_witness:
  "attachedImageFile
     (run \<lparr>marked_parse = (\<lambda>t. t), marked_error = (\<lambda>v. []), rendered_text = (\<lambda>c. [])\<rparr>
        [ImageChange (Some \<lparr>file_name = ''a'', file_type = ''image/png'', file_bytes = [1]\<rparr>),
         ImageChange (Some \<lparr>file_name = ''b'', file_type = ''image/png'', file_bytes = [2]\<rparr>)]
        initial_client) =
     Some \<lparr>file_name = ''b'', file_type = ''image/png'', file_bytes = [2]\<rparr>
   \<and> imagePreview
     (run \<lparr>marked_parse = (\<lambda>t. t), marked_error = (\<lambda>v. []), rendered_text = (\<lambda>c. [])\<rparr>
        [ImageChange (Some \<lparr>file_name = ''a'', file_type = ''image/png'', file_bytes = [1]\<rparr>),
         ImageChange (Some \<lparr>file_name = ''b'', file_type = ''image/png'', file_bytes = [2]\<rparr>)]
        initial_client) = [1]
   \<and> preview_ok
     (run \<lparr>marked_parse = (\<lambda>t. t), marked_error = (\<lambda>v. []), rendered_text = (\<lambda>c. [])\<rparr>
        [ImageChange (Some \<lparr>file_name = ''a'', file_type = ''image/png'', file_bytes = [1]\<rparr>),
         ImageChange (Some \<lparr>file_name = ''b'', file_type = ''image/png'', file_bytes = [2]\<rparr>)]
        initial_client)"
  using single_attachment [of
      "\<lparr>marked_parse = (\<lambda>t. t), marked_error = (\<lambda>v. []), rendered_text = (\<lambda>c. [])\<rparr>"
      "[ImageChange (Some \<lparr>file_name = ''a'', file_type = ''image/png'', file_bytes = [1]\<rparr>),
        ImageChange (Some \<lparr>file_name = ''b'', file_type = ''image/png'', file_bytes = [2]\<rparr>)]"
      "\<lparr>file_name = ''b'', file_type = ''image/png'', file_bytes = [2]\<rparr>"
      "step \<lparr>marked_parse = (\<lambda>t. t), marked_error = (\<lambda>v. []), rendered_text = (\<lambda>c. [])\<rparr>
         (ImageChange (Some \<lparr>file_name = ''a'', file_type = ''image/png'', file_bytes = [1]\<rparr>))
         initial_client"]
  by (simp add: image_change_def createObjectURL_def initial_client_def)

subsection \<open>The typing effect\<close>

lemma find_map_same:
  assumes "\<And>t. P (g t) = P t"
  shows "find P (map g xs) = map_option g (find P xs)"
  using assms by (induction xs) simp_all

lemma find_filter_not: "find P (filter (\<lambda>t. \<not> P t) xs) = None"
  by (induction xs) simp_all

lemma interval_of_elem: "interval_of s e = Some t \<Longrightarrow> ty_elem t = e"
  by (auto simp: interval_of_def find_Some_iff)

lemma set_text_other:
  "intervals (set_text e c s) = intervals s"
  "length (elems (set_text e c s)) = length (elems s)"
  "isResponseGenerating (set_text e c s) = isResponseGenerating s"
  "interval_of (set_text e c s) e' = interval_of s e'"
  by (simp_all add: set_text_def interval_of_def)

lemma set_icon_hidden_other:
  "intervals (set_icon_hidden e h s) = intervals s"
  "length (elems (set_icon_hidden e h s)) = length (elems s)"
  "isResponseGenerating (set_icon_hidden e h s) = isResponseGenerating s"
  "interval_of (set_icon_hidden e h s) e' = interval_of s e'"
  by (simp_all add: set_icon_hidden_def interval_of_def)

lemma set_text_content:
  "e < length (elems s) \<Longrightarrow> m_text (elems (set_text e c s) ! e) = c"
  by (simp add: set_text_def)

lemma set_icon_hidden_content:
  "m_text (elems (set_icon_hidden e h s) ! e') = m_text (elems s ! e')"
  by (cases "e' = e") (simp_all add: set_icon_hidden_def)

lemma tick_running:
  assumes "interval_of s e = Some t" and "Suc (ty_index t) \<noteq> length (ty_words t)"
  shows "interval_of (tick B e s) e = Some (t\<lparr>ty_index := Suc (ty_index t)\<rparr>)"
    and "length (elems (tick B e s)) = length (elems s)"
    and "isResponseGenerating (tick B e s) = isResponseGenerating s"
    and "e < length (elems s) \<Longrightarrow>
         m_text (elems (tick B e s) ! e) =
           InnerText (rendered_text B (m_text (elems s ! e))
             @ (if ty_index t = 0 then [] else '' '')
             @ (if ty_index t < length (ty_words t) then ty_words t ! ty_index t
                else ''undefined''))"
proof -
  have e: "ty_elem t = e"
    using assms(1) by (rule interval_of_elem)
  have found: "find (\<lambda>t. ty_elem t = e) (intervals s) = Some t"
    using assms(1) by (simp add: interval_of_def)
  show "interval_of (tick B e s) e = Some (t\<lparr>ty_index := Suc (ty_index t)\<rparr>)"
    using assms e found
    by (simp add: tick_def Let_def set_text_other interval_of_def find_map_same)
  show "length (elems (tick B e s)) = length (elems s)"
    using assms by (simp add: tick_def Let_def set_text_other)
  show "isResponseGenerating (tick B e s) = isResponseGenerating s"
    using assms by (simp add: tick_def Let_def set_text_other)
  show "m_text (elems (tick B e s) ! e) =
           InnerText (rendered_text B (m_text (elems s ! e))
             @ (if ty_index t = 0 then [] else '' '')
             @ (if ty_index t < length (ty_words t) then ty_words t ! ty_index t
                else ''undefined''))" if "e < length (elems s)"
    using assms that by (simp add: tick_def Let_def set_text_content)
qed

lemma tick_last:
  assumes "interval_of s e = Some t" and "Suc (ty_index t) = length (ty_words t)"
    and "e < length (elems s)"
  shows "interval_of (tick B e s) e = None"
    and "m_text (elems (tick B e s) ! e) = InnerHTML (ty_parsed t)"
    and "\<not> isResponseGenerating (tick B e s)"
    and "\<not> m_icon_hidden (elems (tick B e s) ! e)"
proof -
  show "interval_of (tick B e s) e = None"
    using assms
    by (simp add: tick_def Let_def set_text_other set_icon_hidden_other interval_of_def
        find_filter_not)
  show "m_text (elems (tick B e s) ! e) = InnerHTML (ty_parsed t)"
    using assms
    by (simp add: tick_def Let_def set_icon_hidden_content set_text_content set_text_other
        set_text_def)
  show "\<not> isResponseGenerating (tick B e s)"
    using assms
    by (simp add: tick_def Let_def set_text_other set_icon_hidden_other set_text_def)
  show "\<not> m_icon_hidden (elems (tick B e s) ! e)"
    using assms
    by (simp add: tick_def Let_def set_icon_hidden_def set_text_def)
qed

lemma tick_cleared: "interval_of s e = None \<Longrightarrow> tick B e s = s"
  by (simp add: tick_def)

lemma ticks_running:
  assumes "interval_of s e = Some t" and "ty_index t + k < length (ty_words t)"
  shows "interval_of ((tick B e ^^ k) s) e = Some (t\<lparr>ty_index := ty_index t + k\<rparr>)
       \<and> length (elems ((tick B e ^^ k) s)) = length (elems s)
       \<and> isResponseGenerating ((tick B e ^^ k) s) = isResponseGenerating s"
  using assms
proof (induction k arbitrary: s t)
  case 0
  then show ?case by simp
next
  case (Suc k)
  let ?t = "t\<lparr>ty_index := Suc (ty_index t)\<rparr>"
  from Suc.prems have notlast: "Suc (ty_index t) \<noteq> length (ty_words t)"
    by simp
  note step = tick_running [OF Suc.prems(1) notlast, of B]
  have "ty_index ?t + k < length (ty_words ?t)"
    using Suc.prems(2) by simp
  from Suc.IH [OF step(1) this] step(2,3)
  show ?case
    by (simp add: funpow_swap1)
qed

lemma split_length: "length (split T) = Suc (count_list T (CHR '' ''))"
  by (induction T) (auto split: list.splits)

lemma timers_ok_mono:
  assumes "timers_ok s" and "ty_elem ` set (intervals s') \<subseteq> ty_elem ` set (intervals s)"
    and "length (elems s) \<le> length (elems s')"
  shows "timers_ok s'"
  unfolding timers_ok_def list_all_iff
proof
  fix t assume "t \<in> set (intervals s')"
  then have "ty_elem t \<in> ty_elem ` set (intervals s)"
    using assms(2) by blast
  then obtain t' where "t' \<in> set (intervals s)" and "ty_elem t' = ty_elem t"
    by auto
  then have "ty_elem t < length (elems s)"
    using assms(1) by (auto simp: timers_ok_def list_all_iff)
  then show "ty_elem t < length (elems s')"
    using assms(3) by simp
qed

lemma remove_loading_other:
  "intervals (remove_loading s) = intervals s"
  "elems (remove_loading s) = elems s"
  "isResponseGenerating (remove_loading s) = isResponseGenerating s"
  "chatHistory (remove_loading s) = chatHistory s"
  by (simp_all add: remove_loading_def split: option.splits)

lemma set_error_other:
  "intervals (set_error e s) = intervals s"
  "length (elems (set_error e s)) = length (elems s)"
  by (simp_all add: set_error_def)

lemma show_error_other:
  "intervals (show_error msg s) = intervals s"
  "length (elems (show_error msg s)) = Suc (length (elems s))"
  by (simp_all add: show_error_def handleIncomingMessage_def append_message_def Let_def
      set_error_other set_text_other remove_loading_other)

lemma show_error_timers: "timers_ok s \<Longrightarrow> timers_ok (show_error msg s)"
  by (rule timers_ok_mono [of s]) (simp_all add: show_error_other)

lemma tick_timers:
  assumes "timers_ok s"
  shows "timers_ok (tick B e s)"
proof (cases "interval_of s e")
  case None
  then show ?thesis using assms by (simp add: tick_cleared)
next
  case (Some t)
  have "ty_elem ` set (intervals (tick B e s)) \<subseteq> ty_elem ` set (intervals s)"
    using Some
    by (auto simp: tick_def Let_def set_text_other set_icon_hidden_other set_text_def 
        split: if_splits)
  moreover have "length (elems s) \<le> length (elems (tick B e s))"
    using Some
    by (simp add: tick_def Let_def set_text_other set_icon_hidden_other set_text_def)
  ultimately show ?thesis
    using assms timers_ok_mono [of s "tick B e s"] by blast
qed

lemma find_append_None: "find P xs = None \<Longrightarrow> find P (xs @ ys) = find P ys"
  by (induction xs) (simp_all split: if_splits)

lemma fresh_element:
  assumes "timers_ok s"
  shows "find (\<lambda>t. ty_elem t = length (elems s)) (intervals s) = None"
  using assms by (auto simp: timers_ok_def list_all_iff find_None_iff)

lemma typing_started:
  assumes "timers_ok s" and "attachedImageFile s = None"
    and "reply_text data = Some (JStr T)" and "T \<noteq> []"
  shows "interval_of (display_reply B up data s) (length (elems s)) =
           Some \<lparr>ty_elem = length (elems s), ty_words = split T, ty_index = 0,
                 ty_parsed = marked_parse B T\<rparr>"
    and "length (elems (display_reply B up data s)) = Suc (length (elems s))"
    and "m_text (elems (display_reply B up data s) ! length (elems s)) = InnerText []"
    and "isResponseGenerating (display_reply B up data s) = isResponseGenerating s"
    and "intervals (display_reply B up data s) = intervals s @
           [\<lparr>ty_elem = length (elems s), ty_words = split T, ty_index = 0,
             ty_parsed = marked_parse B T\<rparr>]"
proof -
  let ?s1 = "remove_loading s"
  have att: "attachedImageFile ?s1 = None"
    using assms(2) by (simp add: remove_loading_def split: option.splits)
  have eq: "display_reply B up data s =
    (showTypingEffect T (length (elems s)) (marked_parse B T)
       (snd (append_message \<lparr>m_kind = Incoming, m_text = InnerText [], m_image = None,
          m_icon_hidden = False, m_error = False\<rparr> ?s1)))
      \<lparr>chatHistory := chatHistory ?s1 @
          [\<lparr>userMessage = up, apiResponse = data, imageUrl = None\<rparr>]\<rparr>"
    using assms(3,4) att
    by (simp add: display_reply_def Let_def handleIncomingMessage_def split_def
        append_message_def remove_loading_other showTypingEffect_def set_icon_hidden_def)
  show "intervals (display_reply B up data s) = intervals s @
           [\<lparr>ty_elem = length (elems s), ty_words = split T, ty_index = 0,
             ty_parsed = marked_parse B T\<rparr>]"
    by (simp add: eq showTypingEffect_def Let_def append_message_def set_icon_hidden_def
        remove_loading_other)
  then show "interval_of (display_reply B up data s) (length (elems s)) =
           Some \<lparr>ty_elem = length (elems s), ty_words = split T, ty_index = 0,
                 ty_parsed = marked_parse B T\<rparr>"
    using fresh_element [OF assms(1)] by (simp add: interval_of_def find_append_None)
  show "length (elems (display_reply B up data s)) = Suc (length (elems s))"
    by (simp add: eq showTypingEffect_def Let_def append_message_def set_icon_hidden_def
        remove_loading_other)
  show "m_text (elems (display_reply B up data s) ! length (elems s)) = InnerText []"
    by (simp add: eq showTypingEffect_def Let_def append_message_def set_icon_hidden_def
        remove_loading_other)
  show "isResponseGenerating (display_reply B up data s) = isResponseGenerating s"
    by (simp add: eq showTypingEffect_def Let_def append_message_def set_icon_hidden_def
        remove_loading_other)
qed

lemma remove_loading_timers: "timers_ok (remove_loading s) = timers_ok s"
  by (simp add: timers_ok_def remove_loading_other)

lemma display_reply_timers:
  assumes "timers_ok s"
  shows "timers_ok (display_reply B up data s)"
proof -
  let ?s1 = "remove_loading s"
  have err: "timers_ok (show_error msg ?s1)" for msg
    using assms by (simp add: show_error_timers remove_loading_timers)
  show ?thesis
  proof (cases "\<exists>T. reply_text data = Some (JStr T) \<and> T \<noteq> []")
    case False
    show ?thesis
    proof (cases "reply_text data")
      case None
      then show ?thesis by (simp add: display_reply_def Let_def err)
    next
      case (Some v)
      with False show ?thesis
        by (cases v) (simp_all add: display_reply_def Let_def err)
    qed
  next
    case True
    then obtain T where T: "reply_text data = Some (JStr T)" "T \<noteq> []"
      by blast
    show ?thesis
    proof (cases "attachedImageFile s")
      case None
      note started = typing_started [OF assms None T, of B up]
      show ?thesis
        using assms started(2,5)
        by (auto simp: timers_ok_def list_all_iff)
    next
      case (Some f)
      then have att: "attachedImageFile ?s1 = Some f"
        by (simp add: remove_loading_def split: option.splits)
      have "intervals (display_reply B up data s) = intervals s"
        and "length (elems (display_reply B up data s)) = Suc (length (elems s))"
        using T att
        by (simp_all add: display_reply_def Let_def handleIncomingMessage_def split_def
            append_message_def remove_loading_other set_text_def createObjectURL_def)
      then show ?thesis
        using assms by (simp add: timers_ok_def list_all_iff less_Suc_eq)
    qed
  qed
qed

lemma receive_timers:
  assumes "timers_ok s"
  shows "timers_ok (receive B i result s)"
proof (cases "i < length (pending s)")
  case False
  then show ?thesis using assms by (simp add: receive_def)
next
  case True
  let ?s0 = "s\<lparr>pending := take i (pending s) @ drop (Suc i) (pending s)\<rparr>"
  have "timers_ok ?s0"
    using assms by (simp add: timers_ok_def)
  with True show ?thesis
    by (simp add: receive_def Let_def show_error_timers display_reply_timers
        split: fetch_result.splits upstream_body.splits)
qed

lemma handleOutgoingMessage_other:
  "intervals (handleOutgoingMessage s) = intervals s"
  "length (elems s) \<le> length (elems (handleOutgoingMessage s))"
  by (cases "attachedImageFile s";
      simp add: handleOutgoingMessage_def Let_def split_def append_message_def
        processPrompt_def createObjectURL_def)+

lemma handleOutgoingMessage_timers: "timers_ok s \<Longrightarrow> timers_ok (handleOutgoingMessage s)"
  by (rule timers_ok_mono [of s]) (simp_all add: handleOutgoingMessage_other)

lemma step_timers:
  assumes "timers_ok s"
  shows "timers_ok (step B ev s)"
proof (cases ev)
  case FormSubmit
  have "timers_ok (s\<lparr>prompt := Some (trim (promptInput s))\<rparr>)"
    using assms by (simp add: timers_ok_def)
  then show ?thesis using FormSubmit by (simp add: handleOutgoingMessage_timers)
next
  case (SuggestionClick t)
  have "timers_ok (s\<lparr>prompt := Some t\<rparr>)"
    using assms by (simp add: timers_ok_def)
  then show ?thesis using SuggestionClick by (simp add: handleOutgoingMessage_timers)
next
  case (ImageChange picked)
  then show ?thesis using assms
    by (simp add: timers_ok_def image_change_def createObjectURL_def split: option.splits)
next
  case LoadingTimeout
  then show ?thesis using assms
    by (auto simp: timers_ok_def list_all_iff showLoadingAnimation_def append_message_def)
next
  case (Receive i result)
  then show ?thesis using assms by (simp add: receive_timers)
next
  case (Tick e)
  then show ?thesis using assms by (simp add: tick_timers)
qed (use assms in \<open>simp_all add: timers_ok_def remove_image_def delete_chat_def\<close>)

lemma run_timers: "timers_ok s \<Longrightarrow> timers_ok (run B evs s)"
  by (induction evs arbitrary: s) (simp_all add: step_timers)

lemma reachable_timers: "timers_ok (run B evs initial_client)"
  by (rule run_timers) (simp add: timers_ok_def initial_client_def)

text \<open>
  The reveal, as far as the code performs it. In a reachable state in which no image is
  attached when the answer arrives, let a successful answer with
  reply text \<open>T\<close> arrive, and let \<open>n\<close> be the length of \<open>T.split(" ")\<close>, one more
  than the number of spaces of \<open>T\<close>. The interval started on the new message element is
  live before each of its first \<open>n\<close> runs, the \<open>k\<close>-th of which appends the \<open>k\<close>-th
  token to the text shown; the \<open>n\<close>-th run clears the interval, replaces the content of
  the element by the markdown-parsed HTML of \<open>T\<close> and clears the in-flight flag, and no
  later run does anything.
\<close>

theorem typing_effect:
  assumes "s = run B evs initial_client"
    and "i < length (pending s)" and "attachedImageFile s = None"
    and "response_ok st" and "reply_text data = Some (JStr T)" and "T \<noteq> []"
    and "s' = receive B i (Response st (Parsed data)) s"
    and "e = length (elems s)" and "n = length (split T)"
  shows "n = Suc (count_list T (CHR '' ''))
       \<and> (\<forall>k<n. interval_of ((tick B e ^^ k) s') e =
                   Some \<lparr>ty_elem = e, ty_words = split T, ty_index = k,
                         ty_parsed = marked_parse B T\<rparr>)
       \<and> (\<forall>k. Suc k < n \<longrightarrow>
             m_text (elems ((tick B e ^^ Suc k) s') ! e) =
               InnerText (rendered_text B (m_text (elems ((tick B e ^^ k) s') ! e))
                 @ (if k = 0 then [] else '' '') @ split T ! k))
       \<and> interval_of ((tick B e ^^ n) s') e = None
       \<and> m_text (elems ((tick B e ^^ n) s') ! e) = InnerHTML (marked_parse B T)
       \<and> \<not> isResponseGenerating ((tick B e ^^ n) s')
       \<and> tick B e ((tick B e ^^ n) s') = (tick B e ^^ n) s'"
proof -
  let ?t = "\<lparr>ty_elem = e, ty_words = split T, ty_index = 0, ty_parsed = marked_parse B T\<rparr>"
  let ?s0 = "s\<lparr>pending := take i (pending s) @ drop (Suc i) (pending s)\<rparr>"
  have ok: "timers_ok ?s0"
    using reachable_timers [of B evs] assms(1) by (simp add: timers_ok_def)
  have s': "s' = display_reply B (pending s ! i) data ?s0"
    using assms(2,4,7) by (simp add: receive_def Let_def)
  have att: "attachedImageFile ?s0 = None"
    using assms(3) by simp
  note started = typing_started [OF ok att assms(5,6), of B "pending s ! i"]
  have start: "interval_of s' e = Some ?t" and len: "length (elems s') = Suc e"
    using started(1,2) s' assms(8) by simp_all
  have n: "n = Suc (count_list T (CHR '' ''))"
    using assms(9) by (simp add: split_length)
  have running: "interval_of ((tick B e ^^ k) s') e = Some (?t\<lparr>ty_index := k\<rparr>)
      \<and> length (elems ((tick B e ^^ k) s')) = Suc e" if "k < n" for k
    using ticks_running [OF start, of k B] that assms(9) len by simp
  have appended: "m_text (elems ((tick B e ^^ Suc k) s') ! e) =
       InnerText (rendered_text B (m_text (elems ((tick B e ^^ k) s') ! e))
         @ (if k = 0 then [] else '' '') @ split T ! k)" if "Suc k < n" for k
  proof -
    let ?sk = "(tick B e ^^ k) s'"
    have ik: "interval_of ?sk e = Some (?t\<lparr>ty_index := k\<rparr>)" and lk: "e < length (elems ?sk)"
      using running [of k] that by simp_all
    have notlast: "Suc (ty_index (?t\<lparr>ty_index := k\<rparr>)) \<noteq> length (ty_words (?t\<lparr>ty_index := k\<rparr>))"
      using that assms(9) by simp
    show ?thesis
      using tick_running(4) [OF ik notlast lk, of B] that assms(9) by simp
  qed
  obtain m where m: "n = Suc m"
    using n by simp
  let ?sm = "(tick B e ^^ m) s'"
  have im: "interval_of ?sm e = Some (?t\<lparr>ty_index := m\<rparr>)" and lm: "e < length (elems ?sm)"
    using running [of m] m by simp_all
  have last: "Suc (ty_index (?t\<lparr>ty_index := m\<rparr>)) = length (ty_words (?t\<lparr>ty_index := m\<rparr>))"
    using m assms(9) by simp
  note fin = tick_last [OF im last lm, of B]
  have sn: "(tick B e ^^ n) s' = tick B e ?sm"
    using m by simp
  show ?thesis
    using n running appended fin sn by (simp add: tick_cleared)
qed

theorem typing_effect_witness:
  "m_text (elems
     (tick \<lparr>marked_parse = (\<lambda>t. ''<p>'' @ t @ ''</p>''), marked_error = (\<lambda>v. []),
            rendered_text = (\<lambda>c. case c of InnerText t \<Rightarrow> t | InnerHTML h \<Rightarrow> h)\<rparr> 1
       (tick \<lparr>marked_parse = (\<lambda>t. ''<p>'' @ t @ ''</p>''), marked_error = (\<lambda>v. []),
              rendered_text = (\<lambda>c. case c of InnerText t \<Rightarrow> t | InnerHTML h \<Rightarrow> h)\<rparr> 1
         (receive \<lparr>marked_parse = (\<lambda>t. ''<p>'' @ t @ ''</p>''), marked_error = (\<lambda>v. []),
              rendered_text = (\<lambda>c. case c of InnerText t \<Rightarrow> t | InnerHTML h \<Rightarrow> h)\<rparr> 0
            (Response 200 (Parsed (JObj [(''candidates'',
               JArr [JObj [(''content'', JObj [(''parts'',
                 JArr [JObj [(''text'', JStr ''Hi there'')]])])]])])))
            (run \<lparr>marked_parse = (\<lambda>t. ''<p>'' @ t @ ''</p>''), marked_error = (\<lambda>v. []),
              rendered_text = (\<lambda>c. case c of InnerText t \<Rightarrow> t | InnerHTML h \<Rightarrow> h)\<rparr>
               [Input ''Hello'', FormSubmit] initial_client)))) ! 1)
   = InnerHTML ''<p>Hi there</p>''
   \<and> length (split ''Hi there'') = 2"
proof -
  let ?B = "\<lparr>marked_parse = (\<lambda>t. ''<p>'' @ t @ ''</p>''), marked_error = (\<lambda>v. []),
            rendered_text = (\<lambda>c. case c of InnerText t \<Rightarrow> t | InnerHTML h \<Rightarrow> h)\<rparr>"
  let ?data = "JObj [(''candidates'',
               JArr [JObj [(''content'', JObj [(''parts'',
                 JArr [JObj [(''text'', JStr ''Hi there'')]])])]])]"
  let ?s = "run ?B [Input ''Hello'', FormSubmit] initial_client"
  have s: "?s = \<lparr>prompt = Some ''Hello'', isResponseGenerating = True, chatHistory = [],
      attachedImageFile = None, promptInput = [],
      elems = [\<lparr>m_kind = Outgoing, m_text = InnerHTML ''Hello'', m_image = None,
                m_icon_hidden = False, m_error = False\<rparr>],
      chatList = [0], imagePreview = [], objectURLs = [], hideHeader = True,
      lightTheme = False, loadingTimeouts = 1, pending = [Some ''Hello''],
      outbox = [\<lparr>f_url = relay_url, f_method = ''POST'',
                 f_headers = [(''Content-Type'', ''application/json'')],
                 f_body = JsonText (JObj [(''prompt'', JStr ''Hello'')])\<rparr>],
      intervals = []\<rparr>"
    by (simp add: initial_client_def trim_def is_space_def handleOutgoingMessage_def
        no_prompt_def append_message_def processPrompt_def to_string_def)
  have pend: "0 < length (pending ?s)" and att: "attachedImageFile ?s = None"
    and len: "1 = length (elems ?s)"
    by (simp_all only: s) simp_all
  have ok: "response_ok 200"
    by (simp add: response_ok_def)
  have reply: "reply_text ?data = Some (JStr ''Hi there'')"
    by (simp add: reply_text_def opt_prop_def opt_first_def)
  have n: "2 = length (split ''Hi there'')"
    by simp
  from typing_effect [OF refl pend att ok reply _ refl len n]
  show ?thesis
    by (simp add: numeral_2_eq_2)
qed

text \<open>
  Claim C8 fails on the code. The comment of lines 240 and 241 says that the reply is
  shown at once when an image was attached when sending; line 242 tests the module
  variable when the reply arrives. So when a turn is sent with text only and an image is
  picked before the reply arrives, the request has carried no image, yet no typing
  interval is started and no token is revealed: the reply is rendered at once, the
  exchange is stored with an object URL of the image picked later, and that pending
  attachment is dropped.
\<close>

theorem late_attachment_skips_reveal:
  "run \<lparr>marked_parse = (\<lambda>t. ''<p>'' @ t @ ''</p>''), marked_error = (\<lambda>v. []),
        rendered_text = (\<lambda>c. case c of InnerText t \<Rightarrow> t | InnerHTML h \<Rightarrow> h)\<rparr>
     [Input ''Hello'', FormSubmit,
      ImageChange (Some \<lparr>file_name = ''cat'', file_type = ''image/png'', file_bytes = [1]\<rparr>),
      Receive 0 (Response 200 (Parsed (JObj [(''candidates'',
        JArr [JObj [(''content'', JObj [(''parts'',
          JArr [JObj [(''text'', JStr ''Hi there'')]])])]])])))]
     initial_client =
   \<lparr>prompt = Some ''Hello'', isResponseGenerating = False,
    chatHistory =
      [\<lparr>userMessage = Some ''Hello'',
        apiResponse = JObj [(''candidates'',
          JArr [JObj [(''content'', JObj [(''parts'',
            JArr [JObj [(''text'', JStr ''Hi there'')]])])]])],
        imageUrl = Some 1\<rparr>],
    attachedImageFile = None, promptInput = [],
    elems =
      [\<lparr>m_kind = Outgoing, m_text = InnerHTML ''Hello'', m_image = None,
        m_icon_hidden = False, m_error = False\<rparr>,
       \<lparr>m_kind = Incoming, m_text = InnerHTML ''<p>Hi there</p>'', m_image = None,
        m_icon_hidden = False, m_error = False\<rparr>],
    chatList = [0, 1], imagePreview = [],
    objectURLs = [\<lparr>file_name = ''cat'', file_type = ''image/png'', file_bytes = [1]\<rparr>,
                  \<lparr>file_name = ''cat'', file_type = ''image/png'', file_bytes = [1]\<rparr>],
    hideHeader = True, lightTheme = False, loadingTimeouts = 1, pending = [],
    outbox =
      [\<lparr>f_url = ''http://127.0.0.1:3000/api/gemini'', f_method = ''POST'',
        f_headers = [(''Content-Type'', ''application/json'')],
        f_body = JsonText (JObj [(''prompt'', JStr ''Hello'')])\<rparr>],
    intervals = []\<rparr>"
proof -
  let ?B = "\<lparr>marked_parse = (\<lambda>t. ''<p>'' @ t @ ''</p>''), marked_error = (\<lambda>v. []),
        rendered_text = (\<lambda>c. case c of InnerText t \<Rightarrow> t | InnerHTML h \<Rightarrow> h)\<rparr>"
  let ?img = "\<lparr>file_name = ''cat'', file_type = ''image/png'', file_bytes = [1]\<rparr>"
  let ?data = "JObj [(''candidates'',
        JArr [JObj [(''content'', JObj [(''parts'',
          JArr [JObj [(''text'', JStr ''Hi there'')]])])]])]"
  let ?sent = "\<lparr>prompt = Some ''Hello'', isResponseGenerating = True, chatHistory = [],
      attachedImageFile = None, promptInput = [],
      elems = [\<lparr>m_kind = Outgoing, m_text = InnerHTML ''Hello'', m_image = None,
                m_icon_hidden = False, m_error = False\<rparr>],
      chatList = [0], imagePreview = [], objectURLs = [], hideHeader = True,
      lightTheme = False, loadingTimeouts = 1, pending = [Some ''Hello''],
      outbox = [\<lparr>f_url = ''http://127.0.0.1:3000/api/gemini'', f_method = ''POST'',
                 f_headers = [(''Content-Type'', ''application/json'')],
                 f_body = JsonText (JObj [(''prompt'', JStr ''Hello'')])\<rparr>],
      intervals = []\<rparr>"
  have sent: "run ?B [Input ''Hello'', FormSubmit] initial_client = ?sent"
    by (simp add: initial_client_def trim_def is_space_def handleOutgoingMessage_def
        no_prompt_def append_message_def processPrompt_def to_string_def relay_url_def)
  have picked: "step ?B (ImageChange (Some ?img)) ?sent =
      ?sent\<lparr>attachedImageFile := Some ?img, imagePreview := [0], objectURLs := [?img]\<rparr>"
    by (simp add: image_change_def createObjectURL_def)
  have reply: "reply_text ?data = Some (JStr ''Hi there'')"
    by (simp add: reply_text_def opt_prop_def opt_first_def)
  have arrived: "step ?B (Receive 0 (Response 200 (Parsed ?data)))
      (?sent\<lparr>attachedImageFile := Some ?img, imagePreview := [0], objectURLs := [?img]\<rparr>) =
    \<lparr>prompt = Some ''Hello'', isResponseGenerating = False,
     chatHistory = [\<lparr>userMessage = Some ''Hello'', apiResponse = ?data, imageUrl = Some 1\<rparr>],
     attachedImageFile = None, promptInput = [],
     elems =
      [\<lparr>m_kind = Outgoing, m_text = InnerHTML ''Hello'', m_image = None,
        m_icon_hidden = False, m_error = False\<rparr>,
       \<lparr>m_kind = Incoming, m_text = InnerHTML ''<p>Hi there</p>'', m_image = None,
        m_icon_hidden = False, m_error = False\<rparr>],
     chatList = [0, 1], imagePreview = [], objectURLs = [?img, ?img],
     hideHeader = True, lightTheme = False, loadingTimeouts = 1, pending = [],
     outbox =
      [\<lparr>f_url = ''http://127.0.0.1:3000/api/gemini'', f_method = ''POST'',
        f_headers = [(''Content-Type'', ''application/json'')],
        f_body = JsonText (JObj [(''prompt'', JStr ''Hello'')])\<rparr>],
     intervals = []\<rparr>"
    by (simp add: receive_def response_ok_def display_reply_def reply remove_loading_def
        is_loading_def handleIncomingMessage_def append_message_def set_text_def
        createObjectURL_def)
  have "run ?B [Input ''Hello'', FormSubmit, ImageChange (Some ?img),
                Receive 0 (Response 200 (Parsed ?data))] initial_client =
        step ?B (Receive 0 (Response 200 (Parsed ?data)))
          (step ?B (ImageChange (Some ?img))
             (run ?B [Input ''Hello'', FormSubmit] initial_client))"
    by (simp only: run.simps)
  then show ?thesis
    by (simp only: sent picked arrived)
qed

end
